theory Spec2Isabelle
  imports Complex_Main "HOL-Library.AList"
begin

section \<open>JavaScript values\<close>

text \<open>
  The values that reach the Remote Config layer are JSON-shaped: what the transport client
  returns and what \<open>JSON.parse\<close> builds. A number is an IEEE double, kept as the rational it
  denotes (the sign of zero is not kept); a string is the list of its bytes in UTF-8; an
  object is the list of its properties in insertion order.
\<close>

datatype jsnum = NaN | PosInf | NegInf | Finite rat

datatype jsval =
    JUndefined
  | JNull
  | JBool bool
  | JNum jsnum
  | JStr string
  | JArr "jsval list"
  | JObj "(string \<times> jsval) list"

text \<open>The \<open>typeof\<close> operator.\<close>

fun typeof :: "jsval \<Rightarrow> string" where
  "typeof JUndefined = ''undefined''"
| "typeof JNull = ''object''"
| "typeof (JBool b) = ''boolean''"
| "typeof (JNum n) = ''number''"
| "typeof (JStr s) = ''string''"
| "typeof (JArr xs) = ''object''"
| "typeof (JObj kvs) = ''object''"

text \<open>
  A property read \<open>v.k\<close>. A name that the object does not carry reads as \<open>undefined\<close>, and so
  does any of the names used here on a boolean, number, string or array. On \<open>null\<close> and
  \<open>undefined\<close> a read throws a \<open>TypeError\<close>: the constructors below read only behind
  the \<open>isNonNullObject\<close> guard, and \<open>listVersions\<close> has the throw as a branch of its
  own.
\<close>

fun get_prop :: "jsval \<Rightarrow> string \<Rightarrow> jsval" where
  "get_prop (JObj kvs) k = (case map_of kvs k of Some v \<Rightarrow> v | None \<Rightarrow> JUndefined)"
| "get_prop v k = JUndefined"

text \<open>
  The value without its property \<open>k\<close> (\<open>delete v.k\<close> on a copy). The program does not
  call it; the statements below use it to speak of "the same input without this field".
\<close>

definition without :: "string \<Rightarrow> jsval \<Rightarrow> jsval" where
  "without k v = (case v of JObj kvs \<Rightarrow> JObj (AList.delete k kvs) | _ \<Rightarrow> v)"

section \<open>Numbers\<close>

definition is_digit :: "char \<Rightarrow> bool" where
  "is_digit c = (48 \<le> (of_char c :: nat) \<and> (of_char c :: nat) \<le> 57)"

definition digit_val :: "char \<Rightarrow> nat" where
  "digit_val c = (of_char c :: nat) - 48"

definition nat_of_digits :: "string \<Rightarrow> nat" where
  "nat_of_digits ds = foldl (\<lambda>a c. 10 * a + digit_val c) 0 ds"

text \<open>Rounding a rational to the nearest double, ties to even, overflow to infinity.\<close>

fun bit_length :: "int \<Rightarrow> int" where
  "bit_length n = (if n \<le> 0 then 0 else 1 + bit_length (n div 2))"

declare bit_length.simps [simp del]

definition pow2 :: "int \<Rightarrow> rat" where
  "pow2 e = (if 0 \<le> e then 2 ^ nat e else 1 / 2 ^ nat (- e))"

definition ilog2 :: "rat \<Rightarrow> int" where
  \<comment> \<open>for \<open>0 < a\<close>, the \<open>k\<close> with \<open>2 ^ k \<le> a < 2 ^ (k + 1)\<close>\<close>
  "ilog2 a = (if 1 \<le> a then bit_length \<lfloor>a\<rfloor> - 1 else - bit_length (\<lceil>1 / a\<rceil> - 1))"

definition round_half_even :: "rat \<Rightarrow> int" where
  "round_half_even q =
     (let f = \<lfloor>q\<rfloor>; r = q - of_int f
      in if r < 1 / 2 then f else if 1 / 2 < r then f + 1 else if even f then f else f + 1)"

definition to_double :: "rat \<Rightarrow> jsnum" where
  "to_double q =
     (if q = 0 then Finite 0
      else let a = \<bar>q\<bar>;
               e = max (ilog2 a) (- 1022);
               u = pow2 (e - 52);
               v = of_int (round_half_even (a / u)) * u
           in if pow2 1024 \<le> v then (if q < 0 then NegInf else PosInf)
              else Finite (if q < 0 then - v else v))"

definition pow10 :: "int \<Rightarrow> rat" where
  "pow10 e = (if 0 \<le> e then 10 ^ nat e else 1 / 10 ^ nat (- e))"

text \<open>
  A decimal literal is scanned in three parts: the integer digits, the fraction digits
  after a point, the exponent. Each scanner returns what it read and the rest.
\<close>

definition scan_fraction :: "string \<Rightarrow> string option \<times> string" where
  "scan_fraction s =
     (case s of
        c # r \<Rightarrow> if c = CHR ''.'' then (Some (takeWhile is_digit r), dropWhile is_digit r)
                 else (None, s)
      | [] \<Rightarrow> (None, s))"

definition scan_exponent :: "string \<Rightarrow> (int \<times> string) option" where
  "scan_exponent s =
     (case s of
        [] \<Rightarrow> Some (0, s)
      | c # r \<Rightarrow>
          if c = CHR ''e'' \<or> c = CHR ''E'' then
            (let (neg, r') = (case r of
                                [] \<Rightarrow> (False, r)
                              | d # t \<Rightarrow> if d = CHR ''-'' then (True, t)
                                         else if d = CHR ''+'' then (False, t) else (False, r));
                 ds = takeWhile is_digit r'
             in if ds = [] then None
                else Some ((if neg then - int (nat_of_digits ds) else int (nat_of_digits ds)),
                           dropWhile is_digit r'))
          else Some (0, s))"

definition decimal_value :: "string \<Rightarrow> string \<Rightarrow> int \<Rightarrow> rat" where
  "decimal_value ip fp ex = of_nat (nat_of_digits (ip @ fp)) * pow10 (ex - int (length fp))"

text \<open>
  A decimal literal \<open>digits [. [digits]] [exponent]\<close> or \<open>. digits [exponent]\<close>, the
  whole string, and the rational it denotes. \<open>None\<close> is no match.
\<close>

definition decimal_literal :: "string \<Rightarrow> rat option" where
  "decimal_literal s =
     (let ip = takeWhile is_digit s;
          (fo, r) = scan_fraction (dropWhile is_digit s);
          fp = (case fo of None \<Rightarrow> [] | Some f \<Rightarrow> f)
      in if ip = [] \<and> fp = [] then None
         else (case scan_exponent r of
                 None \<Rightarrow> None
               | Some (ex, r') \<Rightarrow> if r' = [] then Some (decimal_value ip fp ex) else None))"

text \<open>
  \<open>StrUnsignedDecimalLiteral\<close> of the language's string-to-number conversion:
  \<open>Infinity\<close>, or a decimal literal rounded to a double.
\<close>

definition unsigned_decimal :: "string \<Rightarrow> jsnum option" where
  "unsigned_decimal s =
     (if s = ''Infinity'' then Some PosInf else map_option to_double (decimal_literal s))"

definition negate :: "jsnum \<Rightarrow> jsnum" where
  "negate n = (case n of NaN \<Rightarrow> NaN | PosInf \<Rightarrow> NegInf | NegInf \<Rightarrow> PosInf | Finite q \<Rightarrow> Finite (- q))"

definition radix_digit :: "char \<Rightarrow> nat option" where
  "radix_digit c =
     (let n = (of_char c :: nat)
      in if 48 \<le> n \<and> n \<le> 57 then Some (n - 48)
         else if 97 \<le> n \<and> n \<le> 102 then Some (n - 87)
         else if 65 \<le> n \<and> n \<le> 70 then Some (n - 55)
         else None)"

definition radix_value :: "nat \<Rightarrow> string \<Rightarrow> jsnum option" where
  "radix_value b ds =
     (if ds \<noteq> [] \<and> list_all (\<lambda>c. case radix_digit c of None \<Rightarrow> False | Some d \<Rightarrow> d < b) ds
      then Some (to_double (of_nat (foldl (\<lambda>a c. b * a + the (radix_digit c)) 0 ds)))
      else None)"

text \<open>\<open>NonDecimalIntegerLiteral\<close>: \<open>0x\<close>, \<open>0o\<close>, \<open>0b\<close> in either case, unsigned.\<close>

definition non_decimal :: "string \<Rightarrow> jsnum option" where
  "non_decimal s =
     (case s of
        z # x # ds \<Rightarrow>
          if z \<noteq> CHR ''0'' then None
          else if x = CHR ''x'' \<or> x = CHR ''X'' then radix_value 16 ds
          else if x = CHR ''o'' \<or> x = CHR ''O'' then radix_value 8 ds
          else if x = CHR ''b'' \<or> x = CHR ''B'' then radix_value 2 ds
          else None
      | _ \<Rightarrow> None)"

text \<open>
  \<open>StrWhiteSpaceChar\<close>: the white space and line terminators that the conversion strips
  from both ends. In UTF-8 they are the six ASCII characters, U+00A0 in two bytes, and in
  three bytes U+1680, U+2000 to U+200A, U+2028, U+2029, U+202F, U+205F, U+3000 and
  U+FEFF.
\<close>

definition is_space :: "char \<Rightarrow> bool" where
  "is_space c = ((of_char c :: nat) \<in> {9, 10, 11, 12, 13, 32})"

definition is_space2 :: "char \<Rightarrow> char \<Rightarrow> bool" where
  "is_space2 a b = ((of_char a :: nat) = 194 \<and> (of_char b :: nat) = 160)"

definition is_space3 :: "char \<Rightarrow> char \<Rightarrow> char \<Rightarrow> bool" where
  "is_space3 a b c =
     (let x = (of_char a :: nat); y = (of_char b :: nat); z = (of_char c :: nat)
      in (x = 225 \<and> y = 154 \<and> z = 128) \<or>
         (x = 226 \<and> y = 128 \<and> ((128 \<le> z \<and> z \<le> 138) \<or> z = 168 \<or> z = 169 \<or> z = 175)) \<or>
         (x = 226 \<and> y = 129 \<and> z = 159) \<or>
         (x = 227 \<and> y = 128 \<and> z = 128) \<or>
         (x = 239 \<and> y = 187 \<and> z = 191))"

text \<open>
  Dropping the white space at the front of a text; with \<open>back\<close> the text is a reversed
  one, and the bytes of a character come last byte first.
\<close>

fun drop_space :: "bool \<Rightarrow> string \<Rightarrow> string" where
  "drop_space back (a # b # c # r) =
     (if is_space a then drop_space back (b # c # r)
      else if (if back then is_space2 b a else is_space2 a b) then drop_space back (c # r)
      else if (if back then is_space3 c b a else is_space3 a b c) then drop_space back r
      else a # b # c # r)"
| "drop_space back [a, b] =
     (if is_space a then drop_space back [b]
      else if (if back then is_space2 b a else is_space2 a b) then []
      else [a, b])"
| "drop_space back [a] = (if is_space a then [] else [a])"
| "drop_space back [] = []"

definition trim :: "string \<Rightarrow> string" where
  "trim s = rev (drop_space True (rev (drop_space False s)))"

text \<open>\<open>Number(s)\<close> for a string \<open>s\<close>: the empty or blank string is 0, no match is \<open>NaN\<close>.\<close>

definition StringToNumber :: "string \<Rightarrow> jsnum" where
  "StringToNumber s =
     (let t = trim s
      in case t of
           [] \<Rightarrow> Finite 0
         | c # r \<Rightarrow>
             (case non_decimal t of
                Some n \<Rightarrow> n
              | None \<Rightarrow>
                  (case (if c = CHR ''-'' then map_option negate (unsigned_decimal r)
                         else if c = CHR ''+'' then unsigned_decimal r
                         else unsigned_decimal t) of
                     Some n \<Rightarrow> n
                   | None \<Rightarrow> NaN)))"

text \<open>
  \<open>Number(v)\<close>. The constructor calls it on a string or a number only; an array or object
  would go through its string form, which is not modelled.
\<close>

fun Number :: "jsval \<Rightarrow> jsnum" where
  "Number JUndefined = NaN"
| "Number JNull = Finite 0"
| "Number (JBool b) = Finite (if b then 1 else 0)"
| "Number (JNum n) = n"
| "Number (JStr s) = StringToNumber s"
| "Number (JArr xs) = NaN"
| "Number (JObj kvs) = NaN"

definition Number_isInteger :: "jsnum \<Rightarrow> bool" where
  "Number_isInteger n = (case n of Finite q \<Rightarrow> of_int \<lfloor>q\<rfloor> = q | _ \<Rightarrow> False)"

section \<open>Dates\<close>

text \<open>
  A \<open>Date\<close> is kept as its UTC calendar fields. Years run from 0000 to 9999, the
  four-digit range of both renderings below. The engine reads a year below 0100 in a UTC
  date string as a year of 1950 to 2049; this is not followed here, and the facts about
  the UTC rendering further down are stated for years from 0100.
\<close>

record date_time =
  year :: nat
  month :: nat
  day :: nat
  hours :: nat
  minutes :: nat
  seconds :: nat
  millis :: nat

definition leap_year :: "nat \<Rightarrow> bool" where
  "leap_year y = (if y mod 100 = 0 then y mod 400 = 0 else y mod 4 = 0)"

definition days_in_month :: "nat \<Rightarrow> nat \<Rightarrow> nat" where
  "days_in_month y m =
     (if m = 2 then (if leap_year y then 29 else 28)
      else if m \<in> {4, 6, 9, 11} then 30 else 31)"

definition valid_date_time :: "date_time \<Rightarrow> bool" where
  "valid_date_time d =
     (year d \<le> 9999 \<and> 1 \<le> month d \<and> month d \<le> 12 \<and>
      1 \<le> day d \<and> day d \<le> days_in_month (year d) (month d) \<and>
      hours d \<le> 23 \<and> minutes d \<le> 59 \<and> seconds d \<le> 59 \<and> millis d \<le> 999)"

text \<open>Days since 1 January 1970 in the proleptic Gregorian calendar.\<close>

definition days_from_civil :: "int \<Rightarrow> int \<Rightarrow> int \<Rightarrow> int" where
  "days_from_civil y m d =
     (let y' = (if m \<le> 2 then y - 1 else y);
          mp = (m + 9) mod 12
      in 365 * y' + y' div 4 - y' div 100 + y' div 400 + (153 * mp + 2) div 5 + d - 1 - 719468)"

definition week_day :: "date_time \<Rightarrow> nat" where
  \<comment> \<open>0 is Sunday; 1 January 1970 was a Thursday\<close>
  "week_day d = nat ((days_from_civil (int (year d)) (int (month d)) (int (day d)) + 4) mod 7)"

definition day_names :: "string list" where
  "day_names = [''Sun'', ''Mon'', ''Tue'', ''Wed'', ''Thu'', ''Fri'', ''Sat'']"

definition month_names :: "string list" where
  "month_names = [''Jan'', ''Feb'', ''Mar'', ''Apr'', ''May'', ''Jun'',
                  ''Jul'', ''Aug'', ''Sep'', ''Oct'', ''Nov'', ''Dec'']"

definition digit_char :: "nat \<Rightarrow> char" where
  "digit_char n = ''0123456789'' ! (n mod 10)"

definition pad2 :: "nat \<Rightarrow> string" where
  "pad2 n = [digit_char (n div 10), digit_char n]"

definition pad3 :: "nat \<Rightarrow> string" where
  "pad3 n = [digit_char (n div 100), digit_char (n div 10), digit_char n]"

definition pad4 :: "nat \<Rightarrow> string" where
  "pad4 n = [digit_char (n div 1000), digit_char (n div 100), digit_char (n div 10), digit_char n]"

text \<open>\<open>Date.prototype.toISOString\<close>: \<open>YYYY-MM-DDTHH:mm:ss.sssZ\<close>.\<close>

definition toISOString :: "date_time \<Rightarrow> string" where
  "toISOString d =
     pad4 (year d) @ ''-'' @ pad2 (month d) @ ''-'' @ pad2 (day d) @ ''T'' @
     pad2 (hours d) @ '':'' @ pad2 (minutes d) @ '':'' @ pad2 (seconds d) @ ''.'' @
     pad3 (millis d) @ ''Z''"

text \<open>\<open>Date.prototype.toUTCString\<close>: \<open>Www, DD Mon YYYY HH:mm:ss GMT\<close>.\<close>

definition toUTCString :: "date_time \<Rightarrow> string" where
  "toUTCString d =
     day_names ! week_day d @ '', '' @ pad2 (day d) @ '' '' @ month_names ! (month d - 1) @
     '' '' @ pad4 (year d) @ '' '' @
     pad2 (hours d) @ '':'' @ pad2 (minutes d) @ '':'' @ pad2 (seconds d) @ '' GMT''"

definition field :: "string \<Rightarrow> nat \<Rightarrow> nat \<Rightarrow> nat" where
  \<comment> \<open>the decimal field of width \<open>n\<close> at offset \<open>i\<close>\<close>
  "field s i n = nat_of_digits (take n (drop i s))"

definition month_index :: "string \<Rightarrow> nat" where
  \<comment> \<open>1 to 12, or 0 when the name is none of the twelve\<close>
  "month_index nm = (if nm \<in> set month_names then Suc (length (takeWhile (\<lambda>x. x \<noteq> nm) month_names)) else 0)"

definition read_iso :: "string \<Rightarrow> date_time" where
  "read_iso s = \<lparr>year = field s 0 4, month = field s 5 2, day = field s 8 2,
                hours = field s 11 2, minutes = field s 14 2, seconds = field s 17 2,
                millis = field s 20 3\<rparr>"

definition read_utc :: "string \<Rightarrow> date_time" where
  "read_utc s = \<lparr>year = field s 12 4, month = month_index (take 3 (drop 8 s)), day = field s 5 2,
                hours = field s 17 2, minutes = field s 20 2, seconds = field s 23 2,
                millis = 0\<rparr>"

text \<open>
  \<open>new Date(s)\<close> for a string \<open>s\<close>, on the two formats this layer handles; \<open>None\<close> is an
  invalid date. The fields are read at their fixed offsets and accepted when they are a
  date and render back to \<open>s\<close>, so that each format has exactly one spelling per instant.
\<close>

definition Date_of_string :: "string \<Rightarrow> date_time option" where
  "Date_of_string s =
     (if valid_date_time (read_iso s) \<and> toISOString (read_iso s) = s then Some (read_iso s)
      else if valid_date_time (read_utc s) \<and> toUTCString (read_utc s) = s then Some (read_utc s)
      else None)"

section \<open>JSON.parse\<close>

text \<open>
  A recursive-descent reader of the JSON grammar. Each reader returns the value and the
  rest of the text, or the text at which it stopped. Text is a list of bytes; a
  \<open>\u\<close> escape becomes the UTF-8 bytes of its code unit. The readers of arrays and
  objects compare the length of what is left with what they were given before they go
  on; the comparison makes the recursion well-founded and never fails
  (\<open>parse_consumes\<close> below).
\<close>

definition json_space :: "char \<Rightarrow> bool" where
  "json_space c = ((of_char c :: nat) \<in> {9, 10, 13, 32})"

definition skip_ws :: "string \<Rightarrow> string" where
  "skip_ws s = dropWhile json_space s"

definition utf8 :: "nat \<Rightarrow> string" where
  "utf8 n =
     (if n < 128 then [char_of n]
      else if n < 2048 then [char_of (192 + n div 64), char_of (128 + n mod 64)]
      else [char_of (224 + n div 4096), char_of (128 + n div 64 mod 64), char_of (128 + n mod 64)])"

definition hex4 :: "string \<Rightarrow> nat option" where
  "hex4 s =
     (if length s = 4 \<and> list_all (\<lambda>c. radix_digit c \<noteq> None) s
      then Some (foldl (\<lambda>a c. 16 * a + the (radix_digit c)) 0 s) else None)"

definition escape_char :: "char \<Rightarrow> char option" where
  "escape_char c =
     (if c = CHR ''\"'' \<or> c = CHR 0x5C \<or> c = CHR ''/'' then Some c
      else if c = CHR ''b'' then Some (CHR 0x08)
      else if c = CHR ''f'' then Some (CHR 0x0C)
      else if c = CHR ''n'' then Some (CHR 0x0A)
      else if c = CHR ''r'' then Some (CHR 0x0D)
      else if c = CHR ''t'' then Some (CHR 0x09)
      else None)"

text \<open>The characters of a string literal after its opening quote.\<close>

fun parse_chars :: "string \<Rightarrow> string + (string \<times> string)" where
  "parse_chars [] = Inl []"
| "parse_chars (c # r) =
     (if c = CHR ''\"'' then Inr ([], r)
      else if c = CHR 0x5C then
        (case r of
           [] \<Rightarrow> Inl []
         | e # t \<Rightarrow>
             if e = CHR ''u'' then
               (case hex4 (take 4 t) of
                  None \<Rightarrow> Inl t
                | Some n \<Rightarrow>
                    (case parse_chars (drop 4 t) of
                       Inl x \<Rightarrow> Inl x
                     | Inr (s, rest) \<Rightarrow> Inr (utf8 n @ s, rest)))
             else
               (case escape_char e of
                  None \<Rightarrow> Inl r
                | Some x \<Rightarrow>
                    (case parse_chars t of
                       Inl y \<Rightarrow> Inl y
                     | Inr (s, rest) \<Rightarrow> Inr (x # s, rest))))
      else if (of_char c :: nat) < 32 then Inl (c # r)
      else (case parse_chars r of
              Inl y \<Rightarrow> Inl y
            | Inr (s, rest) \<Rightarrow> Inr (c # s, rest)))"

text \<open>A JSON number: \<open>-? (0 | [1-9] digits) (. digits)? ([eE] [+-]? digits)?\<close>.\<close>

definition parse_number :: "string \<Rightarrow> string + (jsnum \<times> string)" where
  "parse_number s =
     (let (neg, u) = (case s of
                        [] \<Rightarrow> (False, s)
                      | c # r \<Rightarrow> if c = CHR ''-'' then (True, r) else (False, s));
          ip = takeWhile is_digit u;
          a = dropWhile is_digit u
      in if ip = [] then Inl u
         else if 1 < length ip \<and> hd ip = CHR ''0'' then Inl (tl u)
         else let (fo, b) = scan_fraction a
              in if fo = Some [] then Inl b
                 else (case scan_exponent b of
                         None \<Rightarrow> Inl (tl b)
                       | Some (ex, rest) \<Rightarrow>
                           (let n = to_double (decimal_value ip (case fo of None \<Rightarrow> [] | Some f \<Rightarrow> f) ex)
                            in Inr (if neg then negate n else n, rest))))"

lemma length_skip_ws: "length (skip_ws s) \<le> length s"
  by (simp add: skip_ws_def length_dropWhile_le)

lemma skip_ws_Cons_length: "skip_ws s = c # r \<Longrightarrow> length r < length s"
  using length_skip_ws [of s] by simp

function (sequential)
    parse_value :: "string \<Rightarrow> string + (jsval \<times> string)"
and parse_elements :: "string \<Rightarrow> jsval list \<Rightarrow> string + (jsval \<times> string)"
and parse_members :: "string \<Rightarrow> (string \<times> jsval) list \<Rightarrow> string + (jsval \<times> string)"
where
  "parse_value s =
     (case skip_ws s of
        [] \<Rightarrow> Inl []
      | c # r \<Rightarrow>
          if c = CHR ''{'' then
            (case skip_ws r of
               [] \<Rightarrow> Inl []
             | d # t \<Rightarrow> if d = CHR ''}'' then Inr (JObj [], t) else parse_members r [])
          else if c = CHR ''['' then
            (case skip_ws r of
               [] \<Rightarrow> Inl []
             | d # t \<Rightarrow> if d = CHR '']'' then Inr (JArr [], t) else parse_elements r [])
          else if c = CHR ''\"'' then
            (case parse_chars r of Inl x \<Rightarrow> Inl x | Inr (str, rest) \<Rightarrow> Inr (JStr str, rest))
          else if take 4 (c # r) = ''true'' then Inr (JBool True, drop 4 (c # r))
          else if take 5 (c # r) = ''false'' then Inr (JBool False, drop 5 (c # r))
          else if take 4 (c # r) = ''null'' then Inr (JNull, drop 4 (c # r))
          else (case parse_number (c # r) of
                  Inl x \<Rightarrow> Inl x
                | Inr (n, rest) \<Rightarrow> Inr (JNum n, rest)))"
| "parse_elements s acc =
     (case parse_value s of
        Inl x \<Rightarrow> Inl x
      | Inr (v, rest) \<Rightarrow>
          if length rest < length s then
            (case skip_ws rest of
               [] \<Rightarrow> Inl []
             | c # r \<Rightarrow>
                 if c = CHR '','' then parse_elements r (acc @ [v])
                 else if c = CHR '']'' then Inr (JArr (acc @ [v]), r)
                 else Inl (c # r))
          else Inl rest)"
| "parse_members s acc =
     (case skip_ws s of
        [] \<Rightarrow> Inl []
      | q # r \<Rightarrow>
          if q \<noteq> CHR ''\"'' then Inl (q # r)
          else
            (case parse_chars r of
               Inl x \<Rightarrow> Inl x
             | Inr (k, r1) \<Rightarrow>
                 if length r1 \<le> length r then
                   (case skip_ws r1 of
                      [] \<Rightarrow> Inl []
                    | colon # r2 \<Rightarrow>
                        if colon \<noteq> CHR '':'' then Inl (colon # r2)
                        else
                          (case parse_value r2 of
                             Inl x \<Rightarrow> Inl x
                           | Inr (v, r3) \<Rightarrow>
                               if length r3 < length r2 then
                                 (case skip_ws r3 of
                                    [] \<Rightarrow> Inl []
                                  | c # r4 \<Rightarrow>
                                      if c = CHR '','' then parse_members r4 (AList.update k v acc)
                                      else if c = CHR ''}'' then Inr (JObj (AList.update k v acc), r4)
                                      else Inl (c # r4))
                               else Inl r3))
                 else Inl r1))"
  by pat_completeness auto

termination
  by (relation "measures [\<lambda>x. case x of Inl s \<Rightarrow> length s | Inr (Inl (s, _)) \<Rightarrow> length s | Inr (Inr (s, _)) \<Rightarrow> length s,
                          \<lambda>x. case x of Inl s \<Rightarrow> 0 | _ \<Rightarrow> 1]")
     (auto dest!: skip_ws_Cons_length)

declare parse_value.simps [simp del] parse_elements.simps [simp del] parse_members.simps [simp del]

fun show_nat :: "nat \<Rightarrow> string" where
  "show_nat n = (if n < 10 then [digit_char n] else show_nat (n div 10) @ [digit_char n])"

declare show_nat.simps [simp del]

text \<open>
  The text of the \<open>SyntaxError\<close> that \<open>JSON.parse\<close> throws, as \<open>'' + e\<close> renders it. The
  wording is the engine's; only its presence in the message below matters.
\<close>

definition syntax_error :: "string \<Rightarrow> string \<Rightarrow> string" where
  "syntax_error s rest =
     (case rest of
        [] \<Rightarrow> ''SyntaxError: Unexpected end of JSON input''
      | c # _ \<Rightarrow> ''SyntaxError: Unexpected token '' @ [c] @ '' in JSON at position '' @
                 show_nat (length s - length rest))"

definition JSON_parse :: "string \<Rightarrow> string + jsval" where
  "JSON_parse s =
     (case parse_value s of
        Inl rest \<Rightarrow> Inl (syntax_error s rest)
      | Inr (v, rest) \<Rightarrow>
          if skip_ws rest = [] then Inr v else Inl (syntax_error s (skip_ws rest)))"

section \<open>Validator primitives\<close>

text \<open>
  Modelled from the spec: the module \<open>utils/validator\<close> is imported by
  \<open>remote-config.ts\<close> and is not among the sources. Each predicate follows the sentence of
  the specification's section 4.1 quoted with it.
\<close>

definition isNonEmptyString :: "jsval \<Rightarrow> bool" where
  \<comment> \<open>Modelled from the spec: true iff v is a string type and length > 0.\<close>
  "isNonEmptyString v = (case v of JStr s \<Rightarrow> s \<noteq> [] | _ \<Rightarrow> False)"

definition isNonNullObject :: "jsval \<Rightarrow> bool" where
  \<comment> \<open>Modelled from the spec: true iff v is an object type, not null, not an array.\<close>
  "isNonNullObject v = (case v of JObj kvs \<Rightarrow> True | _ \<Rightarrow> False)"

definition isArray :: "jsval \<Rightarrow> bool" where
  \<comment> \<open>Modelled from the spec: true iff v is a sequence container.\<close>
  "isArray v = (case v of JArr xs \<Rightarrow> True | _ \<Rightarrow> False)"

definition isNumber :: "jsval \<Rightarrow> bool" where
  \<comment> \<open>Modelled from the spec: true iff v is a numeric type (finite or not).\<close>
  "isNumber v = (case v of JNum n \<Rightarrow> True | _ \<Rightarrow> False)"

definition isBoolean :: "jsval \<Rightarrow> bool" where
  \<comment> \<open>Modelled from the spec: true iff v is a boolean type.\<close>
  "isBoolean v = (case v of JBool b \<Rightarrow> True | _ \<Rightarrow> False)"

definition isISODateString :: "jsval \<Rightarrow> bool" where
  \<comment> \<open>Modelled from the spec: true iff v is a string parseable under the ISO-8601 extended
      date-format grammar.\<close>
  "isISODateString v =
     (case v of
        JStr s \<Rightarrow> valid_date_time (read_iso s) \<and> toISOString (read_iso s) = s
      | _ \<Rightarrow> False)"

definition isUTCDateString :: "jsval \<Rightarrow> bool" where
  \<comment> \<open>Modelled from the spec: true iff v is a string parseable under the UTC display format
      produced by formatting a date to its UTC string representation.\<close>
  "isUTCDateString v =
     (case v of
        JStr s \<Rightarrow> valid_date_time (read_utc s) \<and> toUTCString (read_utc s) = s
      | _ \<Rightarrow> False)"

section \<open>Errors\<close>

text \<open>
  A message is its literal text, or a literal prefix followed by \<open>JSON.stringify\<close> of a
  value, which is kept as the value. \<open>TypeError\<close> is the language's own exception.
\<close>

datatype message = Message string | MessageWithJSON string jsval

datatype error = FirebaseRemoteConfigError string message | TypeError string

definition is_invalid_argument :: "error \<Rightarrow> bool" where
  "is_invalid_argument e =
     (case e of FirebaseRemoteConfigError code m \<Rightarrow> code = ''invalid-argument'' | TypeError t \<Rightarrow> False)"

definition and_then :: "error + 'a \<Rightarrow> ('a \<Rightarrow> error + 'b) \<Rightarrow> error + 'b" where
  "and_then r f = (case r of Inl e \<Rightarrow> Inl e | Inr x \<Rightarrow> f x)"

section \<open>VersionImpl\<close>

text \<open>
  The fields of a \<open>VersionImpl\<close> instance; a field the constructor did not assign reads
  \<open>undefined\<close>.
\<close>

record VersionImpl =
  versionNumber :: jsval
  updateTime :: jsval
  updateOrigin :: jsval
  updateType :: jsval
  updateUser :: jsval
  description :: jsval
  rollbackSource :: jsval
  isLegacy :: jsval

text \<open>
  The string literal types that the class declares for \<open>updateOrigin\<close> and \<open>updateType\<close>.
  They are types only: no block of the constructor refers to them.
\<close>

definition update_origins :: "string list" where
  "update_origins =
     [''REMOTE_CONFIG_UPDATE_ORIGIN_UNSPECIFIED'', ''CONSOLE'', ''REST_API'', ''ADMIN_SDK_NODE'']"

definition update_types :: "string list" where
  "update_types =
     [''REMOTE_CONFIG_UPDATE_TYPE_UNSPECIFIED'', ''INCREMENTAL_UPDATE'', ''FORCED_UPDATE'', ''ROLLBACK'']"

definition unassigned_version :: VersionImpl where
  "unassigned_version =
     \<lparr>versionNumber = JUndefined, updateTime = JUndefined, updateOrigin = JUndefined,
      updateType = JUndefined, updateUser = JUndefined, description = JUndefined,
      rollbackSource = JUndefined, isLegacy = JUndefined\<rparr>"

text \<open>
  The constructor is a sequence of blocks, one per field; each either throws or goes on
  with \<open>this\<close> possibly updated. A block takes the input \<open>version\<close> and \<open>this\<close>.
\<close>

definition assign_versionNumber :: "jsval \<Rightarrow> VersionImpl \<Rightarrow> error + VersionImpl" where
  "assign_versionNumber version this =
     (if typeof (get_prop version ''versionNumber'') \<noteq> ''undefined'' then
        if \<not> isNonEmptyString (get_prop version ''versionNumber'') \<and>
           \<not> isNumber (get_prop version ''versionNumber'') then
          Inl (FirebaseRemoteConfigError ''invalid-argument''
                 (Message ''Version number must be a non-empty string in int64 format or a number''))
        else if \<not> Number_isInteger (Number (get_prop version ''versionNumber'')) then
          Inl (FirebaseRemoteConfigError ''invalid-argument''
                 (Message ''Version number must be an integer or a string in int64 format''))
        else Inr (this\<lparr>versionNumber := get_prop version ''versionNumber''\<rparr>)
      else Inr this)"

definition assign_updateOrigin :: "jsval \<Rightarrow> VersionImpl \<Rightarrow> error + VersionImpl" where
  "assign_updateOrigin version this =
     (if typeof (get_prop version ''updateOrigin'') \<noteq> ''undefined'' then
        if \<not> isNonEmptyString (get_prop version ''updateOrigin'') then
          Inl (FirebaseRemoteConfigError ''invalid-argument''
                 (Message ''Version update origin must be a non-empty string''))
        else Inr (this\<lparr>updateOrigin := get_prop version ''updateOrigin''\<rparr>)
      else Inr this)"

definition assign_updateType :: "jsval \<Rightarrow> VersionImpl \<Rightarrow> error + VersionImpl" where
  "assign_updateType version this =
     (if typeof (get_prop version ''updateType'') \<noteq> ''undefined'' then
        if \<not> isNonEmptyString (get_prop version ''updateType'') then
          Inl (FirebaseRemoteConfigError ''invalid-argument''
                 (Message ''Version update type must be a non-empty string''))
        else Inr (this\<lparr>updateType := get_prop version ''updateType''\<rparr>)
      else Inr this)"

definition assign_updateUser :: "jsval \<Rightarrow> VersionImpl \<Rightarrow> error + VersionImpl" where
  "assign_updateUser version this =
     (if typeof (get_prop version ''updateUser'') \<noteq> ''undefined'' then
        if \<not> isNonNullObject (get_prop version ''updateUser'') then
          Inl (FirebaseRemoteConfigError ''invalid-argument''
                 (Message ''Version update user must be a non-null object''))
        else Inr (this\<lparr>updateUser := get_prop version ''updateUser''\<rparr>)
      else Inr this)"

definition assign_description :: "jsval \<Rightarrow> VersionImpl \<Rightarrow> error + VersionImpl" where
  "assign_description version this =
     (if typeof (get_prop version ''description'') \<noteq> ''undefined'' then
        if \<not> isNonEmptyString (get_prop version ''description'') then
          Inl (FirebaseRemoteConfigError ''invalid-argument''
                 (Message ''Version description must be a non-empty string''))
        else Inr (this\<lparr>description := get_prop version ''description''\<rparr>)
      else Inr this)"

definition assign_rollbackSource :: "jsval \<Rightarrow> VersionImpl \<Rightarrow> error + VersionImpl" where
  "assign_rollbackSource version this =
     (if typeof (get_prop version ''rollbackSource'') \<noteq> ''undefined'' then
        if \<not> isNonEmptyString (get_prop version ''rollbackSource'') then
          Inl (FirebaseRemoteConfigError ''invalid-argument''
                 (Message ''Version rollback source must be a non-empty string''))
        else Inr (this\<lparr>rollbackSource := get_prop version ''rollbackSource''\<rparr>)
      else Inr this)"

definition assign_isLegacy :: "jsval \<Rightarrow> VersionImpl \<Rightarrow> error + VersionImpl" where
  "assign_isLegacy version this =
     (if typeof (get_prop version ''isLegacy'') \<noteq> ''undefined'' then
        if \<not> isBoolean (get_prop version ''isLegacy'') then
          Inl (FirebaseRemoteConfigError ''invalid-argument''
                 (Message ''Version.isLegacy must be a boolean''))
        else Inr (this\<lparr>isLegacy := get_prop version ''isLegacy''\<rparr>)
      else Inr this)"

text \<open>\<open>new Date(v).toUTCString()\<close> for a string \<open>v\<close>.\<close>

definition Date_toUTCString :: "jsval \<Rightarrow> jsval" where
  "Date_toUTCString v =
     (case v of
        JStr s \<Rightarrow> (case Date_of_string s of
                     Some d \<Rightarrow> JStr (toUTCString d)
                   | None \<Rightarrow> JStr ''Invalid Date'')
      | _ \<Rightarrow> JStr ''Invalid Date'')"

text \<open>
  The last block. After the check of the two formats, \<open>this.updateTime\<close> is assigned under
  \<open>if (validator.isISODateString(version.updateTime))\<close>, which has no \<open>else\<close>.
\<close>

definition assign_updateTime :: "jsval \<Rightarrow> VersionImpl \<Rightarrow> error + VersionImpl" where
  "assign_updateTime version this =
     (if typeof (get_prop version ''updateTime'') \<noteq> ''undefined'' then
        if \<not> isISODateString (get_prop version ''updateTime'') \<and>
           \<not> isUTCDateString (get_prop version ''updateTime'') then
          Inl (FirebaseRemoteConfigError ''invalid-argument''
                 (Message ''Version update time must be a valid date string''))
        else if isISODateString (get_prop version ''updateTime'') then
          Inr (this\<lparr>updateTime := Date_toUTCString (get_prop version ''updateTime'')\<rparr>)
        else Inr this
      else Inr this)"

definition new_VersionImpl :: "jsval \<Rightarrow> error + VersionImpl" where
  "new_VersionImpl version =
     (if \<not> isNonNullObject version then
        Inl (FirebaseRemoteConfigError ''invalid-argument''
               (MessageWithJSON ''Invalid Remote Config version instance: '' version))
      else
        and_then (assign_versionNumber version unassigned_version) (\<lambda>this.
        and_then (assign_updateOrigin version this) (\<lambda>this.
        and_then (assign_updateType version this) (\<lambda>this.
        and_then (assign_updateUser version this) (\<lambda>this.
        and_then (assign_description version this) (\<lambda>this.
        and_then (assign_rollbackSource version this) (\<lambda>this.
        and_then (assign_isLegacy version this) (\<lambda>this.
        assign_updateTime version this))))))))"

text \<open>\<open>VersionImpl.toJSON\<close>.\<close>

definition VersionImpl_toJSON :: "VersionImpl \<Rightarrow> jsval" where
  "VersionImpl_toJSON this =
     JObj [(''versionNumber'', versionNumber this),
           (''updateOrigin'', updateOrigin this),
           (''updateType'', updateType this),
           (''updateUser'', updateUser this),
           (''description'', description this),
           (''rollbackSource'', rollbackSource this),
           (''isLegacy'', isLegacy this),
           (''updateTime'', updateTime this)]"

text \<open>
  A \<open>VersionImpl\<close> instance seen as a value, as when it is handed to a constructor again:
  an object whose properties are its fields.
\<close>

definition VersionImpl_value :: "VersionImpl \<Rightarrow> jsval" where
  "VersionImpl_value this =
     JObj [(''versionNumber'', versionNumber this),
           (''updateTime'', updateTime this),
           (''updateOrigin'', updateOrigin this),
           (''updateType'', updateType this),
           (''updateUser'', updateUser this),
           (''description'', description this),
           (''rollbackSource'', rollbackSource this),
           (''isLegacy'', isLegacy this)]"

section \<open>RemoteConfigTemplateImpl\<close>

record RemoteConfigTemplateImpl =
  parameters :: jsval
  parameterGroups :: jsval
  conditions :: jsval
  etagInternal :: jsval
  version :: "VersionImpl option"

definition unassigned_template :: RemoteConfigTemplateImpl where
  "unassigned_template =
     \<lparr>parameters = JUndefined, parameterGroups = JUndefined, conditions = JUndefined,
      etagInternal = JUndefined, version = None\<rparr>"

definition assign_parameters :: "jsval \<Rightarrow> RemoteConfigTemplateImpl \<Rightarrow> error + RemoteConfigTemplateImpl" where
  "assign_parameters config this =
     (if typeof (get_prop config ''parameters'') \<noteq> ''undefined'' then
        if \<not> isNonNullObject (get_prop config ''parameters'') then
          Inl (FirebaseRemoteConfigError ''invalid-argument''
                 (Message ''Remote Config parameters must be a non-null object''))
        else Inr (this\<lparr>parameters := get_prop config ''parameters''\<rparr>)
      else Inr (this\<lparr>parameters := JObj []\<rparr>))"

definition assign_parameterGroups :: "jsval \<Rightarrow> RemoteConfigTemplateImpl \<Rightarrow> error + RemoteConfigTemplateImpl" where
  "assign_parameterGroups config this =
     (if typeof (get_prop config ''parameterGroups'') \<noteq> ''undefined'' then
        if \<not> isNonNullObject (get_prop config ''parameterGroups'') then
          Inl (FirebaseRemoteConfigError ''invalid-argument''
                 (Message ''Remote Config parameter groups must be a non-null object''))
        else Inr (this\<lparr>parameterGroups := get_prop config ''parameterGroups''\<rparr>)
      else Inr (this\<lparr>parameterGroups := JObj []\<rparr>))"

definition assign_conditions :: "jsval \<Rightarrow> RemoteConfigTemplateImpl \<Rightarrow> error + RemoteConfigTemplateImpl" where
  "assign_conditions config this =
     (if typeof (get_prop config ''conditions'') \<noteq> ''undefined'' then
        if \<not> isArray (get_prop config ''conditions'') then
          Inl (FirebaseRemoteConfigError ''invalid-argument''
                 (Message ''Remote Config conditions must be an array''))
        else Inr (this\<lparr>conditions := get_prop config ''conditions''\<rparr>)
      else Inr (this\<lparr>conditions := JArr []\<rparr>))"

definition assign_version :: "jsval \<Rightarrow> RemoteConfigTemplateImpl \<Rightarrow> error + RemoteConfigTemplateImpl" where
  "assign_version config this =
     (if typeof (get_prop config ''version'') \<noteq> ''undefined'' then
        and_then (new_VersionImpl (get_prop config ''version'')) (\<lambda>v. Inr (this\<lparr>version := Some v\<rparr>))
      else Inr this)"

definition new_RemoteConfigTemplateImpl :: "jsval \<Rightarrow> error + RemoteConfigTemplateImpl" where
  "new_RemoteConfigTemplateImpl config =
     (if \<not> isNonNullObject config \<or> \<not> isNonEmptyString (get_prop config ''etag'') then
        Inl (FirebaseRemoteConfigError ''invalid-argument''
               (MessageWithJSON ''Invalid Remote Config template: '' config))
      else
        and_then (Inr (unassigned_template\<lparr>etagInternal := get_prop config ''etag''\<rparr>)) (\<lambda>this.
        and_then (assign_parameters config this) (\<lambda>this.
        and_then (assign_parameterGroups config this) (\<lambda>this.
        and_then (assign_conditions config this) (\<lambda>this.
        assign_version config this)))))"

text \<open>The accessor \<open>get etag()\<close>.\<close>

definition etag :: "RemoteConfigTemplateImpl \<Rightarrow> jsval" where
  "etag this = etagInternal this"

text \<open>\<open>RemoteConfigTemplateImpl.toJSON\<close>; its \<open>version\<close> is the instance itself.\<close>

definition toJSON :: "RemoteConfigTemplateImpl \<Rightarrow> jsval" where
  "toJSON this =
     JObj [(''conditions'', conditions this),
           (''parameters'', parameters this),
           (''parameterGroups'', parameterGroups this),
           (''etag'', etag this),
           (''version'', (case version this of None \<Rightarrow> JUndefined | Some v \<Rightarrow> VersionImpl_value v))]"

text \<open>
  What a holder of a template can do to it: assign one of the four public fields, assign
  to \<open>etag\<close> (an accessor without a setter: a \<open>TypeError\<close> in strict code, ignored
  otherwise, no write either way), read \<open>etag\<close>, call \<open>toJSON\<close>. \<open>etagInternal\<close> is
  \<open>private readonly\<close>.
\<close>

datatype template_op =
    AssignParameters jsval
  | AssignParameterGroups jsval
  | AssignConditions jsval
  | AssignVersion "VersionImpl option"
  | AssignEtag jsval
  | ReadEtag
  | CallToJSON

fun apply_op :: "RemoteConfigTemplateImpl \<Rightarrow> template_op \<Rightarrow> RemoteConfigTemplateImpl" where
  "apply_op this (AssignParameters v) = this\<lparr>parameters := v\<rparr>"
| "apply_op this (AssignParameterGroups v) = this\<lparr>parameterGroups := v\<rparr>"
| "apply_op this (AssignConditions v) = this\<lparr>conditions := v\<rparr>"
| "apply_op this (AssignVersion v) = this\<lparr>version := v\<rparr>"
| "apply_op this (AssignEtag v) = this"
| "apply_op this ReadEtag = this"
| "apply_op this CallToJSON = this"

section \<open>RemoteConfig\<close>

text \<open>
  \<open>createTemplateFromJSON\<close>. The argument is any value, since the check is made at run
  time. Past the check the argument is a string; the last branch of the \<open>case\<close> is
  never taken.
\<close>

definition createTemplateFromJSON :: "jsval \<Rightarrow> error + RemoteConfigTemplateImpl" where
  "createTemplateFromJSON json =
     (if \<not> isNonEmptyString json then
        Inl (FirebaseRemoteConfigError ''invalid-argument''
               (Message ''JSON string must be a valid non-empty string''))
      else
        (case json of
           JStr text \<Rightarrow>
             (case JSON_parse text of
                Inl e \<Rightarrow>
                  Inl (FirebaseRemoteConfigError ''invalid-argument''
                         (Message (''Failed to parse the JSON string: '' @ text @ ''. '' @ e)))
              | Inr template \<Rightarrow> new_RemoteConfigTemplateImpl template)
         | _ \<Rightarrow> Inl (TypeError ''not a string'')))"

text \<open>
  \<open>listVersions\<close>. The transport client is outside this layer: its outcome is the
  argument, a rejection or the response. \<open>versions?.map(...)\<close> stops at the first entry
  whose constructor throws.
\<close>

record ListVersionsResult =
  versions :: "VersionImpl list"
  nextPageToken :: jsval

fun map_VersionImpl :: "jsval list \<Rightarrow> error + VersionImpl list" where
  "map_VersionImpl [] = Inr []"
| "map_VersionImpl (v # vs) =
     and_then (new_VersionImpl v) (\<lambda>x. and_then (map_VersionImpl vs) (\<lambda>xs. Inr (x # xs)))"

definition listVersions_then :: "jsval \<Rightarrow> error + ListVersionsResult" where
  "listVersions_then listVersionsResponse =
     (if listVersionsResponse = JUndefined \<or> listVersionsResponse = JNull then
        Inl (TypeError ''Cannot read properties of undefined or null'')
      else
        (case get_prop listVersionsResponse ''versions'' of
           JUndefined \<Rightarrow>
             Inr \<lparr>versions = [], nextPageToken = get_prop listVersionsResponse ''nextPageToken''\<rparr>
         | JNull \<Rightarrow>
             Inr \<lparr>versions = [], nextPageToken = get_prop listVersionsResponse ''nextPageToken''\<rparr>
         | JArr vs \<Rightarrow>
             and_then (map_VersionImpl vs) (\<lambda>xs.
               Inr \<lparr>versions = xs, nextPageToken = get_prop listVersionsResponse ''nextPageToken''\<rparr>)
         | _ \<Rightarrow> Inl (TypeError ''versions.map is not a function'')))"

definition listVersions :: "error + jsval \<Rightarrow> error + ListVersionsResult" where
  "listVersions client_result = and_then client_result listVersions_then"

section \<open>Facts about the building blocks\<close>

lemma get_prop_without:
  "get_prop (without k v) k' = (if k' = k then JUndefined else get_prop v k')"
  by (cases v) (simp_all add: without_def delete_conv)

lemma isNonNullObject_without: "isNonNullObject (without k v) = isNonNullObject v"
  by (cases v) (simp_all add: without_def isNonNullObject_def)

lemma typeof_undefined: "(typeof x = ''undefined'') = (x = JUndefined)"
  by (cases x) simp_all

lemma and_then_Inr: "(and_then r f = Inr y) = (\<exists>x. r = Inr x \<and> f x = Inr y)"
  by (cases r) (simp_all add: and_then_def)

lemma and_then_Inl: "(and_then r f = Inl e) = (r = Inl e \<or> (\<exists>x. r = Inr x \<and> f x = Inl e))"
  by (cases r) (simp_all add: and_then_def)

lemma undefined_not_valid:
  "\<not> isNonEmptyString JUndefined" "\<not> isNumber JUndefined" "\<not> isNonNullObject JUndefined"
  "\<not> isBoolean JUndefined" "\<not> isArray JUndefined" "\<not> isISODateString JUndefined"
  "\<not> isUTCDateString JUndefined"
  by (simp_all add: isNonEmptyString_def isNumber_def isNonNullObject_def isBoolean_def
        isArray_def isISODateString_def isUTCDateString_def)

lemma if_undefined: "(if x = JUndefined then JUndefined else x) = x"
  by simp

text \<open>
  Rounding in steps, for evaluation: the exponent, then the rounded significand, then the
  test for overflow.
\<close>

lemma floor_rat_numeral: "\<lfloor>numeral a / numeral b :: rat\<rfloor> = numeral a div numeral b"
  by (metis floor_divide_of_int_eq of_int_numeral)

lemma to_double_steps:
  assumes "0 < q" and "ilog2 q = k"
    and "round_half_even (q / pow2 (max k (- 1022) - 52)) = m"
  shows "to_double q =
           (if pow2 1024 \<le> of_int m * pow2 (max k (- 1022) - 52) then PosInf
            else Finite (of_int m * pow2 (max k (- 1022) - 52)))"
proof -
  from assms(1) have "\<bar>q\<bar> = q" "q \<noteq> 0" "\<not> q < 0"
    by simp_all
  with assms(2,3) show ?thesis
    by (simp only: to_double_def Let_def if_False)
qed

lemmas literal_defs =
  decimal_literal_def scan_fraction_def scan_exponent_def is_digit_def decimal_value_def
  nat_of_digits_def digit_val_def pow10_def

lemmas string_number_defs =
  StringToNumber_def trim_def is_space_def is_space2_def is_space3_def non_decimal_def
  unsigned_decimal_def

text \<open>\<open>Number.isInteger\<close> holds of the finite numbers whose value is an integer.\<close>

lemma Number_isInteger_iff: "Number_isInteger n = (\<exists>i. n = Finite (of_int i))"
proof (cases n)
  case (Finite q)
  have "(of_int \<lfloor>q\<rfloor> = q) = (\<exists>i. q = of_int i)"
    by (metis floor_of_int)
  with Finite show ?thesis
    by (simp add: Number_isInteger_def)
qed (simp_all add: Number_isInteger_def)

lemmas validator_defs =
  isNonEmptyString_def isNonNullObject_def isArray_def isNumber_def isBoolean_def

lemmas date_defs =
  Date_of_string_def read_iso_def read_utc_def field_def nat_of_digits_def digit_val_def
  valid_date_time_def days_in_month_def leap_year_def toISOString_def toUTCString_def
  pad2_def pad3_def pad4_def digit_char_def week_day_def days_from_civil_def day_names_def
  month_names_def month_index_def isISODateString_def isUTCDateString_def Date_toUTCString_def

lemmas version_defs =
  new_VersionImpl_def and_then_def unassigned_version_def assign_versionNumber_def
  assign_updateOrigin_def assign_updateType_def assign_updateUser_def assign_description_def
  assign_rollbackSource_def assign_isLegacy_def assign_updateTime_def

lemmas template_defs =
  new_RemoteConfigTemplateImpl_def unassigned_template_def assign_parameters_def
  assign_parameterGroups_def assign_conditions_def assign_version_def

subsection \<open>Each block of the VersionImpl constructor\<close>

text \<open>
  A block goes on exactly when its property is absent or passes the check, and then
  \<open>this\<close> carries the property's value in the block's field (for \<open>updateTime\<close>: the UTC
  rendering when the value is an ISO string, and no assignment otherwise).
\<close>

lemma assign_versionNumber_Inr:
  "(assign_versionNumber v t = Inr t') =
     ((get_prop v ''versionNumber'' = JUndefined \<or>
       (isNonEmptyString (get_prop v ''versionNumber'') \<or> isNumber (get_prop v ''versionNumber'')) \<and>
       Number_isInteger (Number (get_prop v ''versionNumber''))) \<and>
      t' = t\<lparr>versionNumber := (if get_prop v ''versionNumber'' = JUndefined then versionNumber t
                                 else get_prop v ''versionNumber'')\<rparr>)"
  by (auto simp: assign_versionNumber_def typeof_undefined)

lemma assign_updateOrigin_Inr:
  "(assign_updateOrigin v t = Inr t') =
     ((get_prop v ''updateOrigin'' = JUndefined \<or> isNonEmptyString (get_prop v ''updateOrigin'')) \<and>
      t' = t\<lparr>updateOrigin := (if get_prop v ''updateOrigin'' = JUndefined then updateOrigin t
                                else get_prop v ''updateOrigin'')\<rparr>)"
  by (auto simp: assign_updateOrigin_def typeof_undefined)

lemma assign_updateType_Inr:
  "(assign_updateType v t = Inr t') =
     ((get_prop v ''updateType'' = JUndefined \<or> isNonEmptyString (get_prop v ''updateType'')) \<and>
      t' = t\<lparr>updateType := (if get_prop v ''updateType'' = JUndefined then updateType t
                              else get_prop v ''updateType'')\<rparr>)"
  by (auto simp: assign_updateType_def typeof_undefined)

lemma assign_updateUser_Inr:
  "(assign_updateUser v t = Inr t') =
     ((get_prop v ''updateUser'' = JUndefined \<or> isNonNullObject (get_prop v ''updateUser'')) \<and>
      t' = t\<lparr>updateUser := (if get_prop v ''updateUser'' = JUndefined then updateUser t
                              else get_prop v ''updateUser'')\<rparr>)"
  by (auto simp: assign_updateUser_def typeof_undefined)

lemma assign_description_Inr:
  "(assign_description v t = Inr t') =
     ((get_prop v ''description'' = JUndefined \<or> isNonEmptyString (get_prop v ''description'')) \<and>
      t' = t\<lparr>description := (if get_prop v ''description'' = JUndefined then description t
                               else get_prop v ''description'')\<rparr>)"
  by (auto simp: assign_description_def typeof_undefined)

lemma assign_rollbackSource_Inr:
  "(assign_rollbackSource v t = Inr t') =
     ((get_prop v ''rollbackSource'' = JUndefined \<or> isNonEmptyString (get_prop v ''rollbackSource'')) \<and>
      t' = t\<lparr>rollbackSource := (if get_prop v ''rollbackSource'' = JUndefined then rollbackSource t
                                  else get_prop v ''rollbackSource'')\<rparr>)"
  by (auto simp: assign_rollbackSource_def typeof_undefined)

lemma assign_isLegacy_Inr:
  "(assign_isLegacy v t = Inr t') =
     ((get_prop v ''isLegacy'' = JUndefined \<or> isBoolean (get_prop v ''isLegacy'')) \<and>
      t' = t\<lparr>isLegacy := (if get_prop v ''isLegacy'' = JUndefined then isLegacy t
                            else get_prop v ''isLegacy'')\<rparr>)"
  by (auto simp: assign_isLegacy_def typeof_undefined)

lemma assign_updateTime_Inr:
  "(assign_updateTime v t = Inr t') =
     ((get_prop v ''updateTime'' = JUndefined \<or> isISODateString (get_prop v ''updateTime'') \<or>
       isUTCDateString (get_prop v ''updateTime'')) \<and>
      t' = t\<lparr>updateTime := (if isISODateString (get_prop v ''updateTime'')
                              then Date_toUTCString (get_prop v ''updateTime'') else updateTime t)\<rparr>)"
  by (auto simp: assign_updateTime_def typeof_undefined undefined_not_valid)

lemmas assign_Inr =
  assign_versionNumber_Inr assign_updateOrigin_Inr assign_updateType_Inr assign_updateUser_Inr
  assign_description_Inr assign_rollbackSource_Inr assign_isLegacy_Inr assign_updateTime_Inr

lemma assign_invalid_argument:
  "assign_versionNumber v t = Inl e \<Longrightarrow> is_invalid_argument e"
  "assign_updateOrigin v t = Inl e \<Longrightarrow> is_invalid_argument e"
  "assign_updateType v t = Inl e \<Longrightarrow> is_invalid_argument e"
  "assign_updateUser v t = Inl e \<Longrightarrow> is_invalid_argument e"
  "assign_description v t = Inl e \<Longrightarrow> is_invalid_argument e"
  "assign_rollbackSource v t = Inl e \<Longrightarrow> is_invalid_argument e"
  "assign_isLegacy v t = Inl e \<Longrightarrow> is_invalid_argument e"
  "assign_updateTime v t = Inl e \<Longrightarrow> is_invalid_argument e"
  by (auto simp: assign_versionNumber_def assign_updateOrigin_def assign_updateType_def
        assign_updateUser_def assign_description_def assign_rollbackSource_def assign_isLegacy_def
        assign_updateTime_def is_invalid_argument_def split: if_splits)

subsection \<open>The VersionImpl constructor as a whole\<close>

text \<open>
  The constructor returns exactly on an object whose present properties all pass, and the
  instance then holds each property as given, except \<open>updateTime\<close>.
\<close>

lemma new_VersionImpl_Inr:
  "(new_VersionImpl v = Inr r) =
     (isNonNullObject v \<and>
      (get_prop v ''versionNumber'' = JUndefined \<or>
       (isNonEmptyString (get_prop v ''versionNumber'') \<or> isNumber (get_prop v ''versionNumber'')) \<and>
       Number_isInteger (Number (get_prop v ''versionNumber''))) \<and>
      (get_prop v ''updateOrigin'' = JUndefined \<or> isNonEmptyString (get_prop v ''updateOrigin'')) \<and>
      (get_prop v ''updateType'' = JUndefined \<or> isNonEmptyString (get_prop v ''updateType'')) \<and>
      (get_prop v ''updateUser'' = JUndefined \<or> isNonNullObject (get_prop v ''updateUser'')) \<and>
      (get_prop v ''description'' = JUndefined \<or> isNonEmptyString (get_prop v ''description'')) \<and>
      (get_prop v ''rollbackSource'' = JUndefined \<or> isNonEmptyString (get_prop v ''rollbackSource'')) \<and>
      (get_prop v ''isLegacy'' = JUndefined \<or> isBoolean (get_prop v ''isLegacy'')) \<and>
      (get_prop v ''updateTime'' = JUndefined \<or> isISODateString (get_prop v ''updateTime'') \<or>
       isUTCDateString (get_prop v ''updateTime'')) \<and>
      r = \<lparr>versionNumber = get_prop v ''versionNumber'',
           updateTime = (if isISODateString (get_prop v ''updateTime'')
                         then Date_toUTCString (get_prop v ''updateTime'') else JUndefined),
           updateOrigin = get_prop v ''updateOrigin'',
           updateType = get_prop v ''updateType'',
           updateUser = get_prop v ''updateUser'',
           description = get_prop v ''description'',
           rollbackSource = get_prop v ''rollbackSource'',
           isLegacy = get_prop v ''isLegacy''\<rparr>)"
  by (simp add: new_VersionImpl_def and_then_Inr assign_Inr unassigned_version_def if_undefined)

lemma new_VersionImpl_invalid_argument:
  "new_VersionImpl v = Inl e \<Longrightarrow> is_invalid_argument e"
  by (auto simp: new_VersionImpl_def and_then_Inl is_invalid_argument_def split: if_splits
        dest: assign_invalid_argument)

lemma new_VersionImpl_fails:
  "\<forall>r. new_VersionImpl v \<noteq> Inr r \<Longrightarrow> \<exists>e. new_VersionImpl v = Inl e \<and> is_invalid_argument e"
  by (cases "new_VersionImpl v") (auto dest: new_VersionImpl_invalid_argument)

lemma versionNumber_kept:
  assumes "new_VersionImpl (without ''versionNumber'' v) = Inr r"
    and "isNonEmptyString (get_prop v ''versionNumber'') \<or> isNumber (get_prop v ''versionNumber'')"
    and "Number_isInteger (Number (get_prop v ''versionNumber''))"
  shows "new_VersionImpl v = Inr (r\<lparr>versionNumber := get_prop v ''versionNumber''\<rparr>)"
  using assms
  by (simp add: new_VersionImpl_Inr get_prop_without isNonNullObject_without)

subsection \<open>Shapes of values\<close>

lemma not_nonempty_string: "(\<forall>s. x = JStr s \<longrightarrow> s = []) = (\<not> isNonEmptyString x)"
  by (cases x) (simp_all add: isNonEmptyString_def)

lemma is_nonempty_string: "(\<exists>s. x = JStr s \<and> s \<noteq> []) = isNonEmptyString x"
  by (cases x) (simp_all add: isNonEmptyString_def)

lemma is_object: "(\<exists>kvs. x = JObj kvs) = isNonNullObject x"
  by (cases x) (simp_all add: isNonNullObject_def)

lemma is_array: "(\<exists>xs. x = JArr xs) = isArray x"
  by (cases x) (simp_all add: isArray_def)

lemma nonempty_string: "x = JStr s \<Longrightarrow> s \<noteq> [] \<Longrightarrow> isNonEmptyString x"
  by (simp add: isNonEmptyString_def)

subsection \<open>One more field on an input that constructs\<close>

lemma updateOrigin_kept:
  assumes "new_VersionImpl (without ''updateOrigin'' v) = Inr r"
    and "isNonEmptyString (get_prop v ''updateOrigin'')"
  shows "new_VersionImpl v = Inr (r\<lparr>updateOrigin := get_prop v ''updateOrigin''\<rparr>)"
  using assms
  by (simp add: new_VersionImpl_Inr get_prop_without isNonNullObject_without)

lemma updateType_kept:
  assumes "new_VersionImpl (without ''updateType'' v) = Inr r"
    and "isNonEmptyString (get_prop v ''updateType'')"
  shows "new_VersionImpl v = Inr (r\<lparr>updateType := get_prop v ''updateType''\<rparr>)"
  using assms
  by (simp add: new_VersionImpl_Inr get_prop_without isNonNullObject_without)

lemma updateTime_after_construction:
  "new_VersionImpl v = Inr r \<Longrightarrow>
   updateTime r = (if isISODateString (get_prop v ''updateTime'')
                   then Date_toUTCString (get_prop v ''updateTime'') else JUndefined)"
  by (auto simp: new_VersionImpl_Inr)

subsection \<open>The RemoteConfigTemplateImpl constructor\<close>

lemma assign_parameters_Inr:
  "(assign_parameters c t = Inr t') =
     ((get_prop c ''parameters'' = JUndefined \<or> isNonNullObject (get_prop c ''parameters'')) \<and>
      t' = t\<lparr>parameters := (if get_prop c ''parameters'' = JUndefined then JObj []
                              else get_prop c ''parameters'')\<rparr>)"
  by (auto simp: assign_parameters_def typeof_undefined)

lemma assign_parameterGroups_Inr:
  "(assign_parameterGroups c t = Inr t') =
     ((get_prop c ''parameterGroups'' = JUndefined \<or> isNonNullObject (get_prop c ''parameterGroups'')) \<and>
      t' = t\<lparr>parameterGroups := (if get_prop c ''parameterGroups'' = JUndefined then JObj []
                                   else get_prop c ''parameterGroups'')\<rparr>)"
  by (auto simp: assign_parameterGroups_def typeof_undefined)

lemma assign_conditions_Inr:
  "(assign_conditions c t = Inr t') =
     ((get_prop c ''conditions'' = JUndefined \<or> isArray (get_prop c ''conditions'')) \<and>
      t' = t\<lparr>conditions := (if get_prop c ''conditions'' = JUndefined then JArr []
                              else get_prop c ''conditions'')\<rparr>)"
  by (auto simp: assign_conditions_def typeof_undefined)

lemma assign_version_Inr:
  "(assign_version c t = Inr t') =
     (if get_prop c ''version'' = JUndefined then t' = t
      else \<exists>v. new_VersionImpl (get_prop c ''version'') = Inr v \<and> t' = t\<lparr>version := Some v\<rparr>)"
  by (auto simp: assign_version_def typeof_undefined and_then_Inr)

lemma new_RemoteConfigTemplateImpl_Inr:
  "(new_RemoteConfigTemplateImpl c = Inr t) =
     (isNonNullObject c \<and> isNonEmptyString (get_prop c ''etag'') \<and>
      (get_prop c ''parameters'' = JUndefined \<or> isNonNullObject (get_prop c ''parameters'')) \<and>
      (get_prop c ''parameterGroups'' = JUndefined \<or> isNonNullObject (get_prop c ''parameterGroups'')) \<and>
      (get_prop c ''conditions'' = JUndefined \<or> isArray (get_prop c ''conditions'')) \<and>
      (\<exists>vo. (if get_prop c ''version'' = JUndefined then vo = None
             else \<exists>v. new_VersionImpl (get_prop c ''version'') = Inr v \<and> vo = Some v) \<and>
            t = \<lparr>parameters = (if get_prop c ''parameters'' = JUndefined then JObj []
                               else get_prop c ''parameters''),
                 parameterGroups = (if get_prop c ''parameterGroups'' = JUndefined then JObj []
                                    else get_prop c ''parameterGroups''),
                 conditions = (if get_prop c ''conditions'' = JUndefined then JArr []
                               else get_prop c ''conditions''),
                 etagInternal = get_prop c ''etag'',
                 version = vo\<rparr>))"
  by (auto simp: new_RemoteConfigTemplateImpl_def and_then_Inr assign_parameters_Inr
        assign_parameterGroups_Inr assign_conditions_Inr assign_version_Inr unassigned_template_def)

lemma new_RemoteConfigTemplateImpl_invalid_argument:
  "new_RemoteConfigTemplateImpl c = Inl e \<Longrightarrow> is_invalid_argument e"
  by (auto simp: template_defs and_then_Inl is_invalid_argument_def split: if_splits
        dest: new_VersionImpl_invalid_argument)

lemma new_RemoteConfigTemplateImpl_fails:
  "\<forall>t. new_RemoteConfigTemplateImpl c \<noteq> Inr t \<Longrightarrow>
   \<exists>e. new_RemoteConfigTemplateImpl c = Inl e \<and> is_invalid_argument e"
  by (cases "new_RemoteConfigTemplateImpl c") (auto dest: new_RemoteConfigTemplateImpl_invalid_argument)

lemma new_RemoteConfigTemplateImpl_succeeds:
  assumes "isNonNullObject c" and "isNonEmptyString (get_prop c ''etag'')"
    and "get_prop c ''parameters'' = JUndefined \<or> isNonNullObject (get_prop c ''parameters'')"
    and "get_prop c ''parameterGroups'' = JUndefined \<or> isNonNullObject (get_prop c ''parameterGroups'')"
    and "get_prop c ''conditions'' = JUndefined \<or> isArray (get_prop c ''conditions'')"
    and "get_prop c ''version'' = JUndefined \<or> (\<exists>v. new_VersionImpl (get_prop c ''version'') = Inr v)"
  shows "\<exists>t. new_RemoteConfigTemplateImpl c = Inr t"
  using assms by (auto simp: new_RemoteConfigTemplateImpl_Inr)

lemma etagInternal_apply_ops: "etagInternal (foldl apply_op t ops) = etagInternal t"
proof (induction ops arbitrary: t)
  case Nil
  show ?case by simp
next
  case (Cons x xs)
  have "etagInternal (apply_op t x) = etagInternal t"
    by (cases x) simp_all
  with Cons show ?case by simp
qed

subsection \<open>listVersions and createTemplateFromJSON\<close>

lemma map_VersionImpl_Inr:
  "(map_VersionImpl vs = Inr xs) = (map new_VersionImpl vs = map Inr xs)"
proof (induction vs arbitrary: xs)
  case Nil
  show ?case by auto
next
  case (Cons v vs)
  show ?case
  proof (cases xs)
    case Nil
    then show ?thesis by (simp add: and_then_Inr)
  next
    case (Cons y ys)
    with Cons.IH [of ys] show ?thesis
      by (auto simp: and_then_Inr)
  qed
qed

lemma map_VersionImpl_succeeds:
  "\<forall>v \<in> set vs. \<exists>x. new_VersionImpl v = Inr x \<Longrightarrow> \<exists>xs. map_VersionImpl vs = Inr xs"
  by (induction vs) (auto simp: and_then_def)

lemma listVersions_Inr:
  assumes "listVersions (Inr response) = Inr r"
  shows "nextPageToken r = get_prop response ''nextPageToken'' \<and>
         (get_prop response ''versions'' = JUndefined \<longrightarrow> versions r = []) \<and>
         (\<forall>vs. get_prop response ''versions'' = JArr vs \<longrightarrow> map_VersionImpl vs = Inr (versions r))"
proof -
  from assms have t: "listVersions_then response = Inr r"
    by (simp add: listVersions_def and_then_def)
  then have nn: "response \<noteq> JUndefined \<and> response \<noteq> JNull"
    by (auto simp: listVersions_then_def)
  show ?thesis
  proof (cases "get_prop response ''versions''")
    case (JArr vs)
    with t nn show ?thesis
      by (auto simp: listVersions_then_def and_then_Inr)
  qed (use t nn in \<open>auto simp: listVersions_then_def\<close>)
qed

lemma createTemplateFromJSON_not_string:
  "\<forall>s. json = JStr s \<longrightarrow> s = [] \<Longrightarrow>
   createTemplateFromJSON json =
     Inl (FirebaseRemoteConfigError ''invalid-argument'' (Message ''JSON string must be a valid non-empty string''))"
  by (simp add: createTemplateFromJSON_def not_nonempty_string)

lemma createTemplateFromJSON_string:
  "s \<noteq> [] \<Longrightarrow>
   createTemplateFromJSON (JStr s) =
     (case JSON_parse s of
        Inl e \<Rightarrow> Inl (FirebaseRemoteConfigError ''invalid-argument''
                       (Message (''Failed to parse the JSON string: '' @ s @ ''. '' @ e)))
      | Inr template \<Rightarrow> new_RemoteConfigTemplateImpl template)"
  by (simp add: createTemplateFromJSON_def isNonEmptyString_def)

subsection \<open>The JSON reader consumes what it reads\<close>

text \<open>
  Every reader that returns a value returns a strictly shorter rest, so the length
  comparisons in \<open>parse_elements\<close> and \<open>parse_members\<close> are true whenever they are
  evaluated.
\<close>

lemma parse_chars_shorter: "parse_chars s = Inr (k, rest) \<Longrightarrow> length rest < length s"
proof (induction s arbitrary: k rest rule: parse_chars.induct)
  case 1
  then show ?case by simp
next
  case (2 c r)
  show ?case
  proof (cases "c = CHR ''\"''")
    case True
    with "2.prems" show ?thesis by simp
  next
    case quote: False
    show ?thesis
    proof (cases "c = CHR 0x5C")
      case False
      with quote "2.prems" "2.IH"(3) show ?thesis
        by (auto split: if_splits sum.splits)
    next
      case True
      with quote "2.prems" "2.IH"(1,2) show ?thesis
        by (fastforce split: if_splits sum.splits list.splits option.splits)
    qed
  qed
qed

lemma scan_fraction_length: "scan_fraction s = (fo, r) \<Longrightarrow> length r \<le> length s"
  by (auto simp: scan_fraction_def split: list.splits if_splits
        intro: le_trans [OF length_dropWhile_le])

lemma scan_exponent_length: "scan_exponent s = Some (ex, r) \<Longrightarrow> length r \<le> length s"
  by (auto simp: scan_exponent_def Let_def split: list.splits if_splits
        intro: le_trans [OF length_dropWhile_le])

lemma dropWhile_shorter: "takeWhile P s \<noteq> [] \<Longrightarrow> length (dropWhile P s) < length s"
  by (cases s) (auto simp: less_Suc_eq_le length_dropWhile_le split: if_splits)

lemma parse_number_shorter: "parse_number s = Inr (n, rest) \<Longrightarrow> length rest < length s"
proof -
  assume a: "parse_number s = Inr (n, rest)"
  define u where "u = (case s of [] \<Rightarrow> s | c # r \<Rightarrow> if c = CHR ''-'' then r else s)"
  have us: "length u \<le> length s"
    by (auto simp: u_def split: list.splits)
  from a have ne: "takeWhile is_digit u \<noteq> []"
    by (auto simp: parse_number_def u_def Let_def split: list.splits if_splits prod.splits)
  from a obtain fo b ex where f: "scan_fraction (dropWhile is_digit u) = (fo, b)"
    and e: "scan_exponent b = Some (ex, rest)"
    by (auto simp: parse_number_def u_def Let_def split: list.splits if_splits prod.splits option.splits)
  from dropWhile_shorter [OF ne] scan_fraction_length [OF f] scan_exponent_length [OF e] us
  show ?thesis by simp
qed

lemma parse_consumes:
  "parse_value s = Inr (v, rest) \<Longrightarrow> length rest < length s"
  "parse_elements s acc = Inr (v, rest) \<Longrightarrow> length rest < length s"
  "parse_members s ms = Inr (v, rest) \<Longrightarrow> length rest < length s"
proof (induction s and s acc and s ms arbitrary: v rest and v rest and v rest
       rule: parse_value_parse_elements_parse_members.induct)
  case (1 s)
  note prem = "1.prems" [unfolded parse_value.simps [of s]]
  show ?case
  proof (cases "skip_ws s")
    case Nil
    with prem show ?thesis by simp
  next
    case (Cons c r)
    note len = skip_ws_Cons_length [OF Cons]
    consider (obj) "c = CHR ''{''" | (arr) "c \<noteq> CHR ''{''" "c = CHR ''[''"
      | (str) "c \<noteq> CHR ''{''" "c \<noteq> CHR ''[''" "c = CHR ''\"''"
      | (other) "c \<noteq> CHR ''{''" "c \<noteq> CHR ''[''" "c \<noteq> CHR ''\"''"
      by blast
    then show ?thesis
    proof cases
      case obj
      show ?thesis
      proof (cases "skip_ws r")
        case Nil
        with prem Cons obj show ?thesis by simp
      next
        case inner: (Cons d t)
        show ?thesis
        proof (cases "d = CHR ''}''")
          case True
          with prem Cons obj inner skip_ws_Cons_length [OF inner] len show ?thesis by auto
        next
          case False
          with prem Cons obj inner have "parse_members r [] = Inr (v, rest)" by simp
          from "1.IH"(1) [OF Cons obj inner False this] len show ?thesis by simp
        qed
      qed
    next
      case arr
      show ?thesis
      proof (cases "skip_ws r")
        case Nil
        with prem Cons arr show ?thesis by simp
      next
        case inner: (Cons d t)
        show ?thesis
        proof (cases "d = CHR '']''")
          case True
          with prem Cons arr inner skip_ws_Cons_length [OF inner] len show ?thesis by auto
        next
          case False
          with prem Cons arr inner have "parse_elements r [] = Inr (v, rest)" by simp
          from "1.IH"(2) [OF Cons arr(1) arr(2) inner False this] len show ?thesis by simp
        qed
      qed
    next
      case str
      with prem Cons len show ?thesis
        by (auto split: sum.splits dest!: parse_chars_shorter)
    next
      case other
      have "length (drop n (c # r)) < length s" if "0 < n" for n
        using len that by (cases n) auto
      with other prem Cons len show ?thesis
        by (auto split: sum.splits if_splits dest!: parse_number_shorter)
    qed
  qed
next
  case (2 s acc)
  note prem = "2.prems" [unfolded parse_elements.simps [of s acc]]
  from prem obtain a b where pv: "parse_value s = Inr (a, b)" and lt: "length b < length s"
    by (auto split: sum.splits if_splits)
  show ?case
  proof (cases "skip_ws b")
    case Nil
    with prem pv lt show ?thesis by simp
  next
    case (Cons c r)
    note len = skip_ws_Cons_length [OF Cons]
    show ?thesis
    proof (cases "c = CHR '',''")
      case True
      with prem pv lt Cons have "parse_elements r (acc @ [a]) = Inr (v, rest)" by simp
      from "2.IH"(2) [OF pv refl lt Cons True this] len lt show ?thesis by simp
    next
      case False
      with prem pv lt Cons len show ?thesis by (auto split: if_splits)
    qed
  qed
next
  case (3 s ms)
  note prem = "3.prems" [unfolded parse_members.simps [of s ms]]
  from prem obtain q r where sk: "skip_ws s = q # r" and q: "q = CHR ''\"''"
    by (auto split: list.splits if_splits)
  from prem sk q obtain k r1 where pc: "parse_chars r = Inr (k, r1)" and le: "length r1 \<le> length r"
    by (auto split: sum.splits if_splits)
  from prem sk q pc le obtain colon r2 where sk1: "skip_ws r1 = colon # r2" and colon: "colon = CHR '':''"
    by (auto split: list.splits if_splits)
  from prem sk q pc le sk1 colon obtain a r3 where pv: "parse_value r2 = Inr (a, r3)"
    and lt: "length r3 < length r2"
    by (auto split: sum.splits if_splits)
  from prem sk q pc le sk1 colon pv lt obtain c r4 where sk3: "skip_ws r3 = c # r4"
    by (auto split: list.splits)
  note lens = skip_ws_Cons_length [OF sk] skip_ws_Cons_length [OF sk1] skip_ws_Cons_length [OF sk3]
  show ?case
  proof (cases "c = CHR '',''")
    case True
    with prem sk q pc le sk1 colon pv lt sk3
    have "parse_members r4 (AList.update k a ms) = Inr (v, rest)" by simp
    from "3.IH"(2) [OF sk _ pc refl le sk1 _ pv refl lt sk3 True this] q colon
    have "length rest < length r4" by simp
    with lens le lt show ?thesis by simp
  next
    case False
    with prem sk q pc le sk1 colon pv lt sk3 lens show ?thesis
      by (auto split: if_splits)
  qed
qed

subsection \<open>The UTC rendering of an ISO date string\<close>

text \<open>
  What the constructor stores for an ISO \<open>updateTime\<close> is a UTC date string and not an ISO
  one. The year is taken from 0100, where the two formats as modelled are the engine's.
\<close>

lemma small_cases:
  "(j::nat) < 10 \<Longrightarrow>
   j = 0 \<or> j = 1 \<or> j = 2 \<or> j = 3 \<or> j = 4 \<or> j = 5 \<or> j = 6 \<or> j = 7 \<or> j = 8 \<or> j = 9"
  by presburger

lemma digit_val_nth: "j < 10 \<Longrightarrow> digit_val (''0123456789'' ! j) = j"
  using small_cases [of j] by (auto simp: digit_val_def)

lemma digit_val_digit_char: "digit_val (digit_char k) = k mod 10"
  by (simp add: digit_char_def digit_val_nth)

lemma four_digits:
  assumes "n < 10000"
  shows "10 * (10 * (10 * (n div 1000 mod 10) + n div 100 mod 10) + n div 10 mod 10) + n mod 10 = (n::nat)"
proof -
  define q1 q2 q3 r0 r1 r2 where "q1 = n div 10" and "q2 = n div 100" and "q3 = n div 1000"
    and "r0 = n mod 10" and "r1 = n div 10 mod 10" and "r2 = n div 100 mod 10"
  have e0: "n = 10 * q1 + r0"
    by (simp add: q1_def r0_def)
  have "n div 10 div 10 = n div 100" "n div 100 div 10 = n div 1000"
    by (simp_all add: div_mult2_eq)
  then have e1: "q1 = 10 * q2 + r1" and e2: "q2 = 10 * q3 + r2"
    unfolding q1_def q2_def q3_def r1_def r2_def
    by (metis mult_div_mod_eq)+
  from assms have "n div 1000 mod 10 = q3"
    by (simp add: q3_def)
  then have "10 * (10 * (10 * (n div 1000 mod 10) + n div 100 mod 10) + n div 10 mod 10) + n mod 10
             = 10 * (10 * (10 * q3 + r2) + r1) + r0"
    by (simp add: r0_def r1_def r2_def)
  also have "\<dots> = n"
    using e0 e1 e2 by simp
  finally show ?thesis .
qed

lemma nat_of_digits_pad2: "n < 100 \<Longrightarrow> nat_of_digits (pad2 n) = n"
  by (simp add: nat_of_digits_def pad2_def digit_val_digit_char)

lemma nat_of_digits_pad4: "n < 10000 \<Longrightarrow> nat_of_digits (pad4 n) = n"
  using four_digits [of n]
  by (simp add: nat_of_digits_def pad4_def digit_val_digit_char)

lemma day_name_shape: "\<exists>a b c. day_names ! week_day d = [a, b, c]"
proof -
  have "week_day d < 7"
    by (simp add: week_day_def)
  then consider "week_day d = 0" | "week_day d = 1" | "week_day d = 2" | "week_day d = 3"
    | "week_day d = 4" | "week_day d = 5" | "week_day d = 6"
    by atomize_elim arith
  then show ?thesis
    by cases (simp_all add: day_names_def)
qed

lemma month_name_shape:
  assumes "1 \<le> m" and "m \<le> 12"
  shows "\<exists>a b c. month_names ! (m - 1) = [a, b, c] \<and> month_index [a, b, c] = m"
proof -
  from assms consider "m = 1" | "m = 2" | "m = 3" | "m = 4" | "m = 5" | "m = 6"
    | "m = 7" | "m = 8" | "m = 9" | "m = 10" | "m = 11" | "m = 12"
    by atomize_elim arith
  then show ?thesis
    by cases (simp_all add: month_names_def month_index_def)
qed

lemma length_toISOString: "length (toISOString d) = 24"
  by (simp add: toISOString_def pad2_def pad3_def pad4_def)

lemma utc_of_iso:
  assumes "isISODateString (JStr s)" and "100 \<le> year (read_iso s)"
  shows "isUTCDateString (Date_toUTCString (JStr s)) \<and> \<not> isISODateString (Date_toUTCString (JStr s))"
proof -
  define d where "d = read_iso s"
  from assms(1) have v: "valid_date_time d" and iso: "toISOString d = s"
    by (simp_all add: isISODateString_def d_def)
  then have "Date_of_string s = Some d"
    by (simp add: Date_of_string_def d_def)
  then have dt: "Date_toUTCString (JStr s) = JStr (toUTCString d)"
    by (simp add: Date_toUTCString_def)
  obtain a b c where dn: "day_names ! week_day d = [a, b, c]"
    using day_name_shape by blast
  from v obtain x y z where mn: "month_names ! (month d - Suc 0) = [x, y, z]"
    and mi: "month_index [x, y, z] = month d"
    using month_name_shape [of "month d"] by (auto simp: valid_date_time_def)
  from v have bounds: "year d < 10000" "day d < 100" "hours d < 100" "minutes d < 100" "seconds d < 100"
    by (auto simp: valid_date_time_def days_in_month_def split: if_splits)
  have ru: "read_utc (toUTCString d) = d\<lparr>millis := 0\<rparr>"
    using bounds nat_of_digits_pad2 nat_of_digits_pad4
    by (simp add: read_utc_def toUTCString_def dn mn mi field_def pad2_def pad4_def)
  have same: "toUTCString (d\<lparr>millis := 0\<rparr>) = toUTCString d"
    by (simp add: toUTCString_def week_day_def)
  from v have "valid_date_time (d\<lparr>millis := 0\<rparr>)"
    by (simp add: valid_date_time_def)
  with ru same have utc: "isUTCDateString (JStr (toUTCString d))"
    by (simp add: isUTCDateString_def)
  have "length (toUTCString d) = 29"
    by (simp add: toUTCString_def dn mn pad2_def pad4_def)
  with length_toISOString [of "read_iso (toUTCString d)"]
  have "toISOString (read_iso (toUTCString d)) \<noteq> toUTCString d"
    by auto
  then have "\<not> isISODateString (JStr (toUTCString d))"
    by (simp add: isISODateString_def)
  with utc dt show ?thesis by simp
qed

lemma constructed_updateTime:
  assumes "new_VersionImpl v = Inr r"
    and "\<forall>s. get_prop v ''updateTime'' = JStr s \<longrightarrow> 100 \<le> year (read_iso s)"
  shows "updateTime r = JUndefined \<or>
         isUTCDateString (updateTime r) \<and> \<not> isISODateString (updateTime r)"
proof (cases "isISODateString (get_prop v ''updateTime'')")
  case True
  then obtain s where s: "get_prop v ''updateTime'' = JStr s"
    by (cases "get_prop v ''updateTime''") (simp_all add: isISODateString_def)
  with assms(2) have "100 \<le> year (read_iso s)"
    by simp
  with True s assms(1) utc_of_iso [of s] show ?thesis
    by (simp add: updateTime_after_construction)
next
  case False
  with assms(1) show ?thesis
    by (simp add: updateTime_after_construction)
qed

subsection \<open>Constructing again from a constructed instance\<close>

text \<open>
  A second pass over a constructed version or template returns, and returns the same
  fields except that \<open>updateTime\<close> is no longer assigned (for an \<open>updateTime\<close> of a
  year from 0100, see above).
\<close>

lemma get_prop_VersionImpl_value:
  "get_prop (VersionImpl_value r) ''versionNumber'' = versionNumber r"
  "get_prop (VersionImpl_value r) ''updateTime'' = updateTime r"
  "get_prop (VersionImpl_value r) ''updateOrigin'' = updateOrigin r"
  "get_prop (VersionImpl_value r) ''updateType'' = updateType r"
  "get_prop (VersionImpl_value r) ''updateUser'' = updateUser r"
  "get_prop (VersionImpl_value r) ''description'' = description r"
  "get_prop (VersionImpl_value r) ''rollbackSource'' = rollbackSource r"
  "get_prop (VersionImpl_value r) ''isLegacy'' = isLegacy r"
  "isNonNullObject (VersionImpl_value r)"
  by (simp_all add: VersionImpl_value_def isNonNullObject_def)

lemma get_prop_VersionImpl_toJSON:
  "get_prop (VersionImpl_toJSON r) ''versionNumber'' = versionNumber r"
  "get_prop (VersionImpl_toJSON r) ''updateTime'' = updateTime r"
  "get_prop (VersionImpl_toJSON r) ''updateOrigin'' = updateOrigin r"
  "get_prop (VersionImpl_toJSON r) ''updateType'' = updateType r"
  "get_prop (VersionImpl_toJSON r) ''updateUser'' = updateUser r"
  "get_prop (VersionImpl_toJSON r) ''description'' = description r"
  "get_prop (VersionImpl_toJSON r) ''rollbackSource'' = rollbackSource r"
  "get_prop (VersionImpl_toJSON r) ''isLegacy'' = isLegacy r"
  "isNonNullObject (VersionImpl_toJSON r)"
  by (simp_all add: VersionImpl_toJSON_def isNonNullObject_def)

lemma version_again:
  assumes "new_VersionImpl v = Inr r"
    and "updateTime r = JUndefined \<or> isUTCDateString (updateTime r) \<and> \<not> isISODateString (updateTime r)"
  shows "new_VersionImpl (VersionImpl_value r) = Inr (r\<lparr>updateTime := JUndefined\<rparr>)"
    and "new_VersionImpl (VersionImpl_toJSON r) = Inr (r\<lparr>updateTime := JUndefined\<rparr>)"
proof -
  from assms(1) have fields:
    "versionNumber r = JUndefined \<or>
       (isNonEmptyString (versionNumber r) \<or> isNumber (versionNumber r)) \<and>
       Number_isInteger (Number (versionNumber r))"
    "updateOrigin r = JUndefined \<or> isNonEmptyString (updateOrigin r)"
    "updateType r = JUndefined \<or> isNonEmptyString (updateType r)"
    "updateUser r = JUndefined \<or> isNonNullObject (updateUser r)"
    "description r = JUndefined \<or> isNonEmptyString (description r)"
    "rollbackSource r = JUndefined \<or> isNonEmptyString (rollbackSource r)"
    "isLegacy r = JUndefined \<or> isBoolean (isLegacy r)"
    by (auto simp: new_VersionImpl_Inr)
  from assms(2) have iso: "\<not> isISODateString (updateTime r)"
    by (auto simp: undefined_not_valid)
  show "new_VersionImpl (VersionImpl_value r) = Inr (r\<lparr>updateTime := JUndefined\<rparr>)"
    using fields assms(2) iso
    by (cases r) (simp add: new_VersionImpl_Inr get_prop_VersionImpl_value)
  show "new_VersionImpl (VersionImpl_toJSON r) = Inr (r\<lparr>updateTime := JUndefined\<rparr>)"
    using fields assms(2) iso
    by (cases r) (simp add: new_VersionImpl_Inr get_prop_VersionImpl_toJSON)
qed

lemma get_prop_toJSON:
  "get_prop (toJSON t) ''etag'' = etagInternal t"
  "get_prop (toJSON t) ''parameters'' = parameters t"
  "get_prop (toJSON t) ''parameterGroups'' = parameterGroups t"
  "get_prop (toJSON t) ''conditions'' = conditions t"
  "get_prop (toJSON t) ''version'' = (case version t of None \<Rightarrow> JUndefined | Some v \<Rightarrow> VersionImpl_value v)"
  "isNonNullObject (toJSON t)"
  by (simp_all add: toJSON_def etag_def isNonNullObject_def)

lemma template_again:
  assumes "new_RemoteConfigTemplateImpl c = Inr t"
    and "\<forall>r. version t = Some r \<longrightarrow>
           updateTime r = JUndefined \<or> isUTCDateString (updateTime r) \<and> \<not> isISODateString (updateTime r)"
  shows "new_RemoteConfigTemplateImpl (toJSON t) =
           Inr (t\<lparr>version := map_option (\<lambda>r. r\<lparr>updateTime := JUndefined\<rparr>) (version t)\<rparr>)"
proof -
  from assms(1) have shape:
    "isNonEmptyString (etagInternal t)" "isNonNullObject (parameters t)"
    "isNonNullObject (parameterGroups t)" "isArray (conditions t)"
    by (auto simp: new_RemoteConfigTemplateImpl_Inr isNonNullObject_def isArray_def)
  then have nu: "parameters t \<noteq> JUndefined" "parameterGroups t \<noteq> JUndefined" "conditions t \<noteq> JUndefined"
    by (auto simp: undefined_not_valid)
  show ?thesis
  proof (cases "version t")
    case None
    with shape nu show ?thesis
      by (cases t) (simp add: new_RemoteConfigTemplateImpl_Inr get_prop_toJSON)
  next
    case (Some r)
    from assms(1) Some obtain v where "new_VersionImpl v = Inr r"
      by (auto simp: new_RemoteConfigTemplateImpl_Inr split: if_splits)
    with assms(2) Some have "new_VersionImpl (VersionImpl_value r) = Inr (r\<lparr>updateTime := JUndefined\<rparr>)"
      using version_again(1) by blast
    moreover have "VersionImpl_value r \<noteq> JUndefined"
      by (simp add: VersionImpl_value_def)
    ultimately show ?thesis
      using Some shape nu
      by (cases t) (simp add: new_RemoteConfigTemplateImpl_Inr get_prop_toJSON)
  qed
qed

lemma second_pass:
  assumes "new_RemoteConfigTemplateImpl c = Inr t"
    and "\<forall>s. get_prop (get_prop c ''version'') ''updateTime'' = JStr s \<longrightarrow> 100 \<le> year (read_iso s)"
  shows "new_RemoteConfigTemplateImpl (toJSON t) =
           Inr (t\<lparr>version := map_option (\<lambda>r. r\<lparr>updateTime := JUndefined\<rparr>) (version t)\<rparr>)"
proof (rule template_again [OF assms(1)], intro allI impI)
  fix r
  assume "version t = Some r"
  with assms(1) have "new_VersionImpl (get_prop c ''version'') = Inr r"
    by (auto simp: new_RemoteConfigTemplateImpl_Inr split: if_splits)
  then show "updateTime r = JUndefined \<or>
             isUTCDateString (updateTime r) \<and> \<not> isISODateString (updateTime r)"
    using assms(2) by (rule constructed_updateTime)
qed

section \<open>The claims\<close>

text \<open>
  C1. The claim: an \<open>updateTime\<close> that is a UTC date string and not an ISO one is accepted
  and kept unchanged; an ISO one is replaced by the UTC rendering of its instant; any
  other value fails with invalid-argument. At the input
  \<open>{updateTime: 'Wed, 01 Jan 2020 00:00:00 GMT'}\<close> the string is a UTC date string and not
  an ISO date string, the constructor returns, and the instance it returns has no
  \<open>updateTime\<close>: the value passes the check and is then not assigned. The two other
  parts of the claim hold (\<open>updateTime_after_construction\<close>, \<open>new_VersionImpl_Inr\<close>).
\<close>

theorem utc_updateTime_not_kept:
  "isUTCDateString (JStr ''Wed, 01 Jan 2020 00:00:00 GMT'') \<and>
   \<not> isISODateString (JStr ''Wed, 01 Jan 2020 00:00:00 GMT'') \<and>
   new_VersionImpl (JObj [(''updateTime'', JStr ''Wed, 01 Jan 2020 00:00:00 GMT'')]) =
     Inr unassigned_version \<and>
   updateTime unassigned_version = JUndefined"
  by (simp add: version_defs validator_defs date_defs)

text \<open>
  C2. The claim: constructing a template again from the serialization of a constructed
  template succeeds and gives back every field value, the version's \<open>updateTime\<close>
  included; constructing a version again from a constructed version changes nothing. For
  the template constructed from
  \<open>{etag: 'abc', version: {updateTime: '2020-01-01T00:00:00.000Z'}}\<close> the second
  construction returns, and its version has no \<open>updateTime\<close> where the first has
  \<open>'Wed, 01 Jan 2020 00:00:00 GMT'\<close>; the same for the version alone. Every other field
  is given back (\<open>second_pass\<close>, for years from 0100).
\<close>

theorem roundtrip_loses_updateTime:
  "new_RemoteConfigTemplateImpl
     (JObj [(''etag'', JStr ''abc''),
            (''version'', JObj [(''updateTime'', JStr ''2020-01-01T00:00:00.000Z'')])]) =
     Inr \<lparr>parameters = JObj [], parameterGroups = JObj [], conditions = JArr [],
          etagInternal = JStr ''abc'',
          version = Some (unassigned_version\<lparr>updateTime := JStr ''Wed, 01 Jan 2020 00:00:00 GMT''\<rparr>)\<rparr> \<and>
   new_RemoteConfigTemplateImpl
     (toJSON \<lparr>parameters = JObj [], parameterGroups = JObj [], conditions = JArr [],
              etagInternal = JStr ''abc'',
              version = Some (unassigned_version\<lparr>updateTime := JStr ''Wed, 01 Jan 2020 00:00:00 GMT''\<rparr>)\<rparr>) =
     Inr \<lparr>parameters = JObj [], parameterGroups = JObj [], conditions = JArr [],
          etagInternal = JStr ''abc'', version = Some unassigned_version\<rparr> \<and>
   new_VersionImpl
     (VersionImpl_toJSON (unassigned_version\<lparr>updateTime := JStr ''Wed, 01 Jan 2020 00:00:00 GMT''\<rparr>)) =
     Inr unassigned_version \<and>
   updateTime unassigned_version = JUndefined"
  by (simp add: template_defs version_defs validator_defs date_defs toJSON_def etag_def
        VersionImpl_value_def VersionImpl_toJSON_def)

theorem roundtrip_loses_updateTime_witness:
  "\<exists>t t'. new_RemoteConfigTemplateImpl
            (JObj [(''etag'', JStr ''abc''),
                   (''version'', JObj [(''updateTime'', JStr ''2020-01-01T00:00:00.000Z'')])]) = Inr t \<and>
          new_RemoteConfigTemplateImpl (toJSON t) = Inr t' \<and> version t' \<noteq> version t"
proof -
  have "Some unassigned_version \<noteq>
        Some (unassigned_version\<lparr>updateTime := JStr ''Wed, 01 Jan 2020 00:00:00 GMT''\<rparr>)"
    by (simp add: unassigned_version_def)
  with roundtrip_loses_updateTime show ?thesis
    by auto
qed

text \<open>
  C3. Template construction fails with invalid-argument on a value that is not a non-null
  object and on one whose \<open>etag\<close> is missing, not a string, or the empty string. On an
  object with a non-empty string \<open>etag\<close> whose other fields are well formed
  (\<open>parameters\<close> and \<open>parameterGroups\<close> absent or objects, \<open>conditions\<close> absent or an
  array, \<open>version\<close> absent or accepted by the version constructor) it succeeds, and the
  template's \<open>etag\<close> is the input's.
\<close>

theorem etag_mandatory:
  "((\<forall>kvs. config \<noteq> JObj kvs) \<or> typeof (get_prop config ''etag'') \<noteq> ''string'' \<or>
      get_prop config ''etag'' = JStr [] \<longrightarrow>
      (\<exists>e. new_RemoteConfigTemplateImpl config = Inl e \<and> is_invalid_argument e)) \<and>
   ((\<exists>kvs. config = JObj kvs) \<and> (\<exists>s. get_prop config ''etag'' = JStr s \<and> s \<noteq> []) \<and>
      (get_prop config ''parameters'' = JUndefined \<or> (\<exists>kvs. get_prop config ''parameters'' = JObj kvs)) \<and>
      (get_prop config ''parameterGroups'' = JUndefined \<or>
         (\<exists>kvs. get_prop config ''parameterGroups'' = JObj kvs)) \<and>
      (get_prop config ''conditions'' = JUndefined \<or> (\<exists>xs. get_prop config ''conditions'' = JArr xs)) \<and>
      (get_prop config ''version'' = JUndefined \<or>
         (\<exists>v. new_VersionImpl (get_prop config ''version'') = Inr v)) \<longrightarrow>
      (\<exists>t. new_RemoteConfigTemplateImpl config = Inr t \<and> etag t = get_prop config ''etag''))"
proof (intro conjI impI)
  assume bad: "(\<forall>kvs. config \<noteq> JObj kvs) \<or> typeof (get_prop config ''etag'') \<noteq> ''string'' \<or>
               get_prop config ''etag'' = JStr []"
  have "\<not> isNonNullObject config \<or> \<not> isNonEmptyString (get_prop config ''etag'')"
    using bad by (cases "get_prop config ''etag''") (auto simp: is_object [symmetric] isNonEmptyString_def)
  then have "\<forall>t. new_RemoteConfigTemplateImpl config \<noteq> Inr t"
    by (auto simp: new_RemoteConfigTemplateImpl_Inr)
  then show "\<exists>e. new_RemoteConfigTemplateImpl config = Inl e \<and> is_invalid_argument e"
    by (rule new_RemoteConfigTemplateImpl_fails)
next
  assume ok: "(\<exists>kvs. config = JObj kvs) \<and> (\<exists>s. get_prop config ''etag'' = JStr s \<and> s \<noteq> []) \<and>
      (get_prop config ''parameters'' = JUndefined \<or> (\<exists>kvs. get_prop config ''parameters'' = JObj kvs)) \<and>
      (get_prop config ''parameterGroups'' = JUndefined \<or>
         (\<exists>kvs. get_prop config ''parameterGroups'' = JObj kvs)) \<and>
      (get_prop config ''conditions'' = JUndefined \<or> (\<exists>xs. get_prop config ''conditions'' = JArr xs)) \<and>
      (get_prop config ''version'' = JUndefined \<or>
         (\<exists>v. new_VersionImpl (get_prop config ''version'') = Inr v))"
  then obtain t where t: "new_RemoteConfigTemplateImpl config = Inr t"
    using new_RemoteConfigTemplateImpl_succeeds [of config]
    unfolding is_object is_array is_nonempty_string by blast
  then have "etag t = get_prop config ''etag''"
    by (auto simp: new_RemoteConfigTemplateImpl_Inr etag_def)
  with t show "\<exists>t. new_RemoteConfigTemplateImpl config = Inr t \<and> etag t = get_prop config ''etag''"
    by blast
qed

theorem etag_mandatory_witness:
  "(\<exists>e. new_RemoteConfigTemplateImpl JNull = Inl e \<and> is_invalid_argument e) \<and>
   (\<exists>e. new_RemoteConfigTemplateImpl (JObj [(''parameters'', JObj [])]) = Inl e \<and> is_invalid_argument e) \<and>
   (\<exists>e. new_RemoteConfigTemplateImpl (JObj [(''etag'', JNum (Finite 7))]) = Inl e \<and> is_invalid_argument e) \<and>
   (\<exists>e. new_RemoteConfigTemplateImpl (JObj [(''etag'', JStr [])]) = Inl e \<and> is_invalid_argument e) \<and>
   (\<exists>t. new_RemoteConfigTemplateImpl (JObj [(''etag'', JStr ''abc''), (''conditions'', JArr [JNull])]) = Inr t \<and>
        etag t = JStr ''abc'')"
  using etag_mandatory [of JNull]
        etag_mandatory [of "JObj [(''parameters'', JObj [])]"]
        etag_mandatory [of "JObj [(''etag'', JNum (Finite 7))]"]
        etag_mandatory [of "JObj [(''etag'', JStr [])]"]
        etag_mandatory [of "JObj [(''etag'', JStr ''abc''), (''conditions'', JArr [JNull])]"]
  by simp

text \<open>
  C4, as amended. A version input whose \<open>versionNumber\<close> is present: the constructor
  fails with invalid-argument unless the value is a number or a non-empty string and
  \<open>Number\<close> of it, the value converted to a double, is an integer. So it fails on
  \<open>true\<close>, \<open>null\<close> and the empty string, and on the string "3.5" and the number 3.5.
  When the value is a number or a non-empty string and \<open>Number\<close> of it is an integer
  ("42", 42), the constructor succeeds whenever it does on the same input without
  \<open>versionNumber\<close>, and the instance holds the value itself, a string as a string and a
  number as a number.
\<close>

theorem versionNumber_checked_after_conversion:
  assumes "get_prop input ''versionNumber'' = x" and "x \<noteq> JUndefined"
  shows "((\<forall>n. x \<noteq> JNum n) \<and> (\<forall>s. x = JStr s \<longrightarrow> s = []) \<or> \<not> Number_isInteger (Number x) \<longrightarrow>
            (\<exists>e. new_VersionImpl input = Inl e \<and> is_invalid_argument e)) \<and>
         (((\<exists>n. x = JNum n) \<or> (\<exists>s. x = JStr s \<and> s \<noteq> [])) \<and> Number_isInteger (Number x) \<longrightarrow>
            (\<forall>r. new_VersionImpl (without ''versionNumber'' input) = Inr r \<longrightarrow>
                 new_VersionImpl input = Inr (r\<lparr>versionNumber := x\<rparr>)))"
proof (intro conjI impI allI)
  assume bad: "(\<forall>n. x \<noteq> JNum n) \<and> (\<forall>s. x = JStr s \<longrightarrow> s = []) \<or> \<not> Number_isInteger (Number x)"
  have "\<not> isNonEmptyString x \<and> \<not> isNumber x \<or> \<not> Number_isInteger (Number x)"
    using bad by (cases x) (auto simp: isNonEmptyString_def isNumber_def)
  with assms have "\<forall>r. new_VersionImpl input \<noteq> Inr r"
    by (auto simp: new_VersionImpl_Inr)
  then show "\<exists>e. new_VersionImpl input = Inl e \<and> is_invalid_argument e"
    by (rule new_VersionImpl_fails)
next
  fix r
  assume ok: "((\<exists>n. x = JNum n) \<or> (\<exists>s. x = JStr s \<and> s \<noteq> [])) \<and> Number_isInteger (Number x)"
    and r: "new_VersionImpl (without ''versionNumber'' input) = Inr r"
  from ok have "isNonEmptyString x \<or> isNumber x"
    by (auto simp: isNonEmptyString_def isNumber_def)
  with ok r assms show "new_VersionImpl input = Inr (r\<lparr>versionNumber := x\<rparr>)"
    using versionNumber_kept [of input r] by simp
qed

theorem versionNumber_checked_after_conversion_witness:
  "(\<exists>e. new_VersionImpl (JObj [(''versionNumber'', JStr ''3.5'')]) = Inl e \<and> is_invalid_argument e) \<and>
   (\<exists>e. new_VersionImpl (JObj [(''versionNumber'', JNum (Finite (7 / 2)))]) = Inl e \<and>
        is_invalid_argument e) \<and>
   (\<exists>e. new_VersionImpl (JObj [(''versionNumber'', JBool True)]) = Inl e \<and> is_invalid_argument e) \<and>
   (\<exists>e. new_VersionImpl (JObj [(''versionNumber'', JNull)]) = Inl e \<and> is_invalid_argument e) \<and>
   (\<exists>e. new_VersionImpl (JObj [(''versionNumber'', JStr [])]) = Inl e \<and> is_invalid_argument e) \<and>
   new_VersionImpl (JObj [(''versionNumber'', JStr ''42'')]) =
     Inr (unassigned_version\<lparr>versionNumber := JStr ''42''\<rparr>) \<and>
   new_VersionImpl (JObj [(''versionNumber'', JNum (Finite 42))]) =
     Inr (unassigned_version\<lparr>versionNumber := JNum (Finite 42)\<rparr>) \<and>
   new_VersionImpl (JObj [(''versionNumber'', JStr [CHR 0xC2, CHR 0xA0, CHR ''4'', CHR ''2''])]) =
     Inr (unassigned_version\<lparr>versionNumber := JStr [CHR 0xC2, CHR 0xA0, CHR ''4'', CHR ''2'']\<rparr>)"
proof -
  have s35: "\<not> Number_isInteger (Number (JStr ''3.5''))"
    by code_simp
  have n35: "\<not> Number_isInteger (Number (JNum (Finite (7 / 2))))"
    by code_simp
  have s42: "Number_isInteger (Number (JStr ''42''))"
    by code_simp
  have n42: "Number_isInteger (Number (JNum (Finite 42)))"
    by code_simp
  have sp42: "Number_isInteger (Number (JStr [CHR 0xC2, CHR 0xA0, CHR ''4'', CHR ''2'']))"
    by code_simp
  have rest: "new_VersionImpl (without ''versionNumber'' (JObj [(''versionNumber'', y)])) =
              Inr unassigned_version" for y
    by (simp add: without_def version_defs validator_defs)
  show ?thesis
    using versionNumber_checked_after_conversion
            [of "JObj [(''versionNumber'', JStr ''3.5'')]" "JStr ''3.5''"]
          versionNumber_checked_after_conversion
            [of "JObj [(''versionNumber'', JNum (Finite (7 / 2)))]" "JNum (Finite (7 / 2))"]
          versionNumber_checked_after_conversion
            [of "JObj [(''versionNumber'', JBool True)]" "JBool True"]
          versionNumber_checked_after_conversion
            [of "JObj [(''versionNumber'', JNull)]" "JNull"]
          versionNumber_checked_after_conversion
            [of "JObj [(''versionNumber'', JStr [])]" "JStr []"]
          versionNumber_checked_after_conversion
            [of "JObj [(''versionNumber'', JStr ''42'')]" "JStr ''42''"]
          versionNumber_checked_after_conversion
            [of "JObj [(''versionNumber'', JNum (Finite 42))]" "JNum (Finite 42)"]
          versionNumber_checked_after_conversion
            [of "JObj [(''versionNumber'', JStr [CHR 0xC2, CHR 0xA0, CHR ''4'', CHR ''2''])]"
                "JStr [CHR 0xC2, CHR 0xA0, CHR ''4'', CHR ''2'']"]
          s35 n35 s42 n42 sp42 rest
    by simp
qed

text \<open>
  C4 as stated speaks of the value: a non-integer fails, an integer-valued string is kept.
  The constructor tests the double that the string converts to. The literal
  \<open>4.0000000000000000001\<close> denotes a rational that is not an integer; it converts to 4
  and is kept. The literal \<open>1e400\<close> denotes an integer; it converts to \<open>Infinity\<close> and
  is refused. The blank string holds no literal; it converts to 0 and is kept.
\<close>

theorem versionNumber_value_counterexample:
  "decimal_literal ''4.0000000000000000001'' =
     Some (40000000000000000001 / 10000000000000000000) \<and>
   (40000000000000000001 / 10000000000000000000 :: rat) \<notin> \<int> \<and>
   new_VersionImpl (JObj [(''versionNumber'', JStr ''4.0000000000000000001'')]) =
     Inr (unassigned_version\<lparr>versionNumber := JStr ''4.0000000000000000001''\<rparr>) \<and>
   decimal_literal ''1e400'' = Some (10 ^ 400) \<and>
   (10 ^ 400 :: rat) \<in> \<int> \<and>
   new_VersionImpl (JObj [(''versionNumber'', JStr ''1e400'')]) =
     Inl (FirebaseRemoteConfigError ''invalid-argument''
            (Message ''Version number must be an integer or a string in int64 format'')) \<and>
   decimal_literal (trim '' '') = None \<and>
   new_VersionImpl (JObj [(''versionNumber'', JStr '' '')]) =
     Inr (unassigned_version\<lparr>versionNumber := JStr '' ''\<rparr>)"
proof -
  have lit1: "decimal_literal ''4.0000000000000000001'' =
              Some (40000000000000000001 / 10000000000000000000)"
    by (simp add: literal_defs)
  have "\<lfloor>40000000000000000001 / 10000000000000000000 :: rat\<rfloor> = 4"
    by (simp add: floor_rat_numeral)
  then have "rat_of_int \<lfloor>40000000000000000001 / 10000000000000000000 :: rat\<rfloor> \<noteq>
             40000000000000000001 / 10000000000000000000"
    by simp
  then have frac: "(40000000000000000001 / 10000000000000000000 :: rat) \<notin> \<int>"
    by (simp add: of_int_floor_cancel [symmetric])
  have i1: "ilog2 (40000000000000000001 / 10000000000000000000) = 2"
    by (simp add: ilog2_def bit_length.simps floor_rat_numeral)
  have r1: "round_half_even (40000000000000000001 / 10000000000000000000 /
              pow2 (max 2 (- 1022) - 52)) = 4503599627370496"
    by (simp add: pow2_def round_half_even_def Let_def floor_rat_numeral)
  have d1: "to_double (40000000000000000001 / 10000000000000000000) = Finite 4"
    using to_double_steps [OF _ i1 r1] by (simp add: pow2_def)
  have n1: "StringToNumber ''4.0000000000000000001'' = Finite 4"
    by (simp add: string_number_defs lit1 d1)
  have v1: "new_VersionImpl (JObj [(''versionNumber'', JStr ''4.0000000000000000001'')]) =
              Inr (unassigned_version\<lparr>versionNumber := JStr ''4.0000000000000000001''\<rparr>)"
    by (simp add: version_defs validator_defs Number_isInteger_def n1)
  have lit2: "decimal_literal ''1e400'' = Some (10 ^ 400)"
    by (simp add: literal_defs)
  have i2: "ilog2 (10 ^ 400) = 1328"
    by (simp add: ilog2_def bit_length.simps)
  have r2: "round_half_even (10 ^ 400 / pow2 (max 1328 (- 1022) - 52)) = 7686445155841023"
    by (simp add: pow2_def round_half_even_def Let_def floor_rat_numeral)
  have pos: "0 < (10 ^ 400 :: rat)"
    by simp
  have big: "pow2 1024 \<le> of_int 7686445155841023 * pow2 (max 1328 (- 1022) - 52)"
    by (simp add: pow2_def)
  from to_double_steps [OF pos i2 r2] big have d2: "to_double (10 ^ 400) = PosInf"
    by (simp only: if_True)
  have n2: "StringToNumber ''1e400'' = PosInf"
    using d2 by (simp add: string_number_defs lit2)
  have v2: "new_VersionImpl (JObj [(''versionNumber'', JStr ''1e400'')]) =
              Inl (FirebaseRemoteConfigError ''invalid-argument''
                     (Message ''Version number must be an integer or a string in int64 format''))"
    by (simp add: version_defs validator_defs Number_isInteger_def n2)
  have t3: "trim '' '' = []"
    by (simp add: trim_def is_space_def)
  have n3: "StringToNumber '' '' = Finite 0"
    by (simp add: StringToNumber_def t3)
  have v3: "new_VersionImpl (JObj [(''versionNumber'', JStr '' '')]) =
              Inr (unassigned_version\<lparr>versionNumber := JStr '' ''\<rparr>)"
    by (simp add: version_defs validator_defs Number_isInteger_def n3)
  have lit3: "decimal_literal (trim '' '') = None"
    by (simp add: t3 literal_defs)
  from lit1 frac v1 lit2 v2 lit3 v3 show ?thesis
    by simp
qed

text \<open>
  C5, as amended. A present \<open>updateOrigin\<close> that is not a non-empty string makes the
  version constructor fail with invalid-argument, and so does a present \<open>updateType\<close>
  that is not a non-empty string. A non-empty string, whether or not it is one of the
  declared enumeration members, is accepted whenever the same input without that field
  is, and is kept as given.
\<close>

theorem updateOrigin_updateType_nonempty_string:
  "(get_prop input ''updateOrigin'' \<noteq> JUndefined \<and>
      (\<forall>s. get_prop input ''updateOrigin'' = JStr s \<longrightarrow> s = []) \<longrightarrow>
      (\<exists>e. new_VersionImpl input = Inl e \<and> is_invalid_argument e)) \<and>
   (get_prop input ''updateType'' \<noteq> JUndefined \<and>
      (\<forall>s. get_prop input ''updateType'' = JStr s \<longrightarrow> s = []) \<longrightarrow>
      (\<exists>e. new_VersionImpl input = Inl e \<and> is_invalid_argument e)) \<and>
   (\<forall>s r. get_prop input ''updateOrigin'' = JStr s \<and> s \<noteq> [] \<and>
        new_VersionImpl (without ''updateOrigin'' input) = Inr r \<longrightarrow>
        new_VersionImpl input = Inr (r\<lparr>updateOrigin := JStr s\<rparr>)) \<and>
   (\<forall>s r. get_prop input ''updateType'' = JStr s \<and> s \<noteq> [] \<and>
        new_VersionImpl (without ''updateType'' input) = Inr r \<longrightarrow>
        new_VersionImpl input = Inr (r\<lparr>updateType := JStr s\<rparr>))"
proof (intro conjI impI allI)
  assume "get_prop input ''updateOrigin'' \<noteq> JUndefined \<and>
          (\<forall>s. get_prop input ''updateOrigin'' = JStr s \<longrightarrow> s = [])"
  then have "\<forall>r. new_VersionImpl input \<noteq> Inr r"
    by (simp add: new_VersionImpl_Inr not_nonempty_string)
  then show "\<exists>e. new_VersionImpl input = Inl e \<and> is_invalid_argument e"
    by (rule new_VersionImpl_fails)
next
  assume "get_prop input ''updateType'' \<noteq> JUndefined \<and>
          (\<forall>s. get_prop input ''updateType'' = JStr s \<longrightarrow> s = [])"
  then have "\<forall>r. new_VersionImpl input \<noteq> Inr r"
    by (simp add: new_VersionImpl_Inr not_nonempty_string)
  then show "\<exists>e. new_VersionImpl input = Inl e \<and> is_invalid_argument e"
    by (rule new_VersionImpl_fails)
next
  fix s r
  assume a: "get_prop input ''updateOrigin'' = JStr s \<and> s \<noteq> [] \<and>
             new_VersionImpl (without ''updateOrigin'' input) = Inr r"
  then have "isNonEmptyString (get_prop input ''updateOrigin'')"
    by (simp add: nonempty_string)
  with a show "new_VersionImpl input = Inr (r\<lparr>updateOrigin := JStr s\<rparr>)"
    using updateOrigin_kept [of input r] by simp
next
  fix s r
  assume a: "get_prop input ''updateType'' = JStr s \<and> s \<noteq> [] \<and>
             new_VersionImpl (without ''updateType'' input) = Inr r"
  then have "isNonEmptyString (get_prop input ''updateType'')"
    by (simp add: nonempty_string)
  with a show "new_VersionImpl input = Inr (r\<lparr>updateType := JStr s\<rparr>)"
    using updateType_kept [of input r] by simp
qed

theorem updateOrigin_updateType_nonempty_string_witness:
  "(\<exists>e. new_VersionImpl (JObj [(''updateOrigin'', JNum (Finite 1))]) = Inl e \<and> is_invalid_argument e) \<and>
   (\<exists>e. new_VersionImpl (JObj [(''updateType'', JStr [])]) = Inl e \<and> is_invalid_argument e) \<and>
   new_VersionImpl (JObj [(''updateOrigin'', JStr ''CONSOLE'')]) =
     Inr (unassigned_version\<lparr>updateOrigin := JStr ''CONSOLE''\<rparr>) \<and>
   new_VersionImpl (JObj [(''updateType'', JStr ''ROLLBACK'')]) =
     Inr (unassigned_version\<lparr>updateType := JStr ''ROLLBACK''\<rparr>)"
proof -
  have rest: "new_VersionImpl (without k (JObj [(k, y)])) = Inr unassigned_version" for k y
    by (simp add: without_def version_defs validator_defs)
  show ?thesis
    using updateOrigin_updateType_nonempty_string [of "JObj [(''updateOrigin'', JNum (Finite 1))]"]
          updateOrigin_updateType_nonempty_string [of "JObj [(''updateType'', JStr [])]"]
          updateOrigin_updateType_nonempty_string [of "JObj [(''updateOrigin'', JStr ''CONSOLE'')]"]
          updateOrigin_updateType_nonempty_string [of "JObj [(''updateType'', JStr ''ROLLBACK'')]"]
          rest
    by simp
qed

text \<open>
  C5 as stated requires a member of the enumeration. \<open>FOO\<close> is not among the update
  origins and \<open>BAR\<close> is not among the update types; the constructor accepts both and
  stores them.
\<close>

theorem updateOrigin_enum_counterexample:
  "''FOO'' \<notin> set update_origins \<and>
   new_VersionImpl (JObj [(''updateOrigin'', JStr ''FOO'')]) =
     Inr (unassigned_version\<lparr>updateOrigin := JStr ''FOO''\<rparr>) \<and>
   ''BAR'' \<notin> set update_types \<and>
   new_VersionImpl (JObj [(''updateType'', JStr ''BAR'')]) =
     Inr (unassigned_version\<lparr>updateType := JStr ''BAR''\<rparr>)"
  by (simp add: update_origins_def update_types_def version_defs validator_defs)

text \<open>
  C6. In a constructed template, \<open>parameters\<close> and \<open>parameterGroups\<close> are the empty object
  when the input has none, and \<open>conditions\<close> is the empty array when the input has none;
  otherwise each is the input's value itself. A present \<open>parameters\<close> or
  \<open>parameterGroups\<close> that is not a non-null object, or a present \<open>conditions\<close> that is
  not an array, makes construction fail with invalid-argument. Nothing is asked of the
  entries: construction succeeds for any object and any array in these three places.
\<close>

theorem collections_default_or_checked:
  "(new_RemoteConfigTemplateImpl config = Inr t \<longrightarrow>
      parameters t = (if get_prop config ''parameters'' = JUndefined then JObj []
                      else get_prop config ''parameters'') \<and>
      parameterGroups t = (if get_prop config ''parameterGroups'' = JUndefined then JObj []
                           else get_prop config ''parameterGroups'') \<and>
      conditions t = (if get_prop config ''conditions'' = JUndefined then JArr []
                      else get_prop config ''conditions'') \<and>
      (\<exists>kvs. parameters t = JObj kvs) \<and> (\<exists>kvs. parameterGroups t = JObj kvs) \<and>
      (\<exists>xs. conditions t = JArr xs)) \<and>
   (get_prop config ''parameters'' \<noteq> JUndefined \<and> (\<forall>kvs. get_prop config ''parameters'' \<noteq> JObj kvs) \<longrightarrow>
      (\<exists>e. new_RemoteConfigTemplateImpl config = Inl e \<and> is_invalid_argument e)) \<and>
   (get_prop config ''parameterGroups'' \<noteq> JUndefined \<and>
      (\<forall>kvs. get_prop config ''parameterGroups'' \<noteq> JObj kvs) \<longrightarrow>
      (\<exists>e. new_RemoteConfigTemplateImpl config = Inl e \<and> is_invalid_argument e)) \<and>
   (get_prop config ''conditions'' \<noteq> JUndefined \<and> (\<forall>xs. get_prop config ''conditions'' \<noteq> JArr xs) \<longrightarrow>
      (\<exists>e. new_RemoteConfigTemplateImpl config = Inl e \<and> is_invalid_argument e)) \<and>
   ((\<exists>kvs. config = JObj kvs) \<and> (\<exists>s. get_prop config ''etag'' = JStr s \<and> s \<noteq> []) \<and>
      (get_prop config ''parameters'' = JUndefined \<or> (\<exists>kvs. get_prop config ''parameters'' = JObj kvs)) \<and>
      (get_prop config ''parameterGroups'' = JUndefined \<or>
         (\<exists>kvs. get_prop config ''parameterGroups'' = JObj kvs)) \<and>
      (get_prop config ''conditions'' = JUndefined \<or> (\<exists>xs. get_prop config ''conditions'' = JArr xs)) \<and>
      (get_prop config ''version'' = JUndefined \<or>
         (\<exists>v. new_VersionImpl (get_prop config ''version'') = Inr v)) \<longrightarrow>
      (\<exists>t. new_RemoteConfigTemplateImpl config = Inr t))"
proof (intro conjI impI)
  assume t: "new_RemoteConfigTemplateImpl config = Inr t"
  then show "parameters t = (if get_prop config ''parameters'' = JUndefined then JObj []
                             else get_prop config ''parameters'')"
    and "parameterGroups t = (if get_prop config ''parameterGroups'' = JUndefined then JObj []
                              else get_prop config ''parameterGroups'')"
    and "conditions t = (if get_prop config ''conditions'' = JUndefined then JArr []
                         else get_prop config ''conditions'')"
    by (auto simp: new_RemoteConfigTemplateImpl_Inr)
  from t show "\<exists>kvs. parameters t = JObj kvs" and "\<exists>kvs. parameterGroups t = JObj kvs"
    and "\<exists>xs. conditions t = JArr xs"
    by (auto simp: new_RemoteConfigTemplateImpl_Inr is_object [symmetric] is_array [symmetric])
next
  assume "get_prop config ''parameters'' \<noteq> JUndefined \<and> (\<forall>kvs. get_prop config ''parameters'' \<noteq> JObj kvs)"
  then have "\<forall>t. new_RemoteConfigTemplateImpl config \<noteq> Inr t"
    by (auto simp: new_RemoteConfigTemplateImpl_Inr is_object [symmetric])
  then show "\<exists>e. new_RemoteConfigTemplateImpl config = Inl e \<and> is_invalid_argument e"
    by (rule new_RemoteConfigTemplateImpl_fails)
next
  assume "get_prop config ''parameterGroups'' \<noteq> JUndefined \<and>
          (\<forall>kvs. get_prop config ''parameterGroups'' \<noteq> JObj kvs)"
  then have "\<forall>t. new_RemoteConfigTemplateImpl config \<noteq> Inr t"
    by (auto simp: new_RemoteConfigTemplateImpl_Inr is_object [symmetric])
  then show "\<exists>e. new_RemoteConfigTemplateImpl config = Inl e \<and> is_invalid_argument e"
    by (rule new_RemoteConfigTemplateImpl_fails)
next
  assume "get_prop config ''conditions'' \<noteq> JUndefined \<and> (\<forall>xs. get_prop config ''conditions'' \<noteq> JArr xs)"
  then have "\<forall>t. new_RemoteConfigTemplateImpl config \<noteq> Inr t"
    by (auto simp: new_RemoteConfigTemplateImpl_Inr is_array [symmetric])
  then show "\<exists>e. new_RemoteConfigTemplateImpl config = Inl e \<and> is_invalid_argument e"
    by (rule new_RemoteConfigTemplateImpl_fails)
next
  assume "(\<exists>kvs. config = JObj kvs) \<and> (\<exists>s. get_prop config ''etag'' = JStr s \<and> s \<noteq> []) \<and>
      (get_prop config ''parameters'' = JUndefined \<or> (\<exists>kvs. get_prop config ''parameters'' = JObj kvs)) \<and>
      (get_prop config ''parameterGroups'' = JUndefined \<or>
         (\<exists>kvs. get_prop config ''parameterGroups'' = JObj kvs)) \<and>
      (get_prop config ''conditions'' = JUndefined \<or> (\<exists>xs. get_prop config ''conditions'' = JArr xs)) \<and>
      (get_prop config ''version'' = JUndefined \<or>
         (\<exists>v. new_VersionImpl (get_prop config ''version'') = Inr v))"
  then show "\<exists>t. new_RemoteConfigTemplateImpl config = Inr t"
    using new_RemoteConfigTemplateImpl_succeeds [of config]
    unfolding is_object is_array is_nonempty_string by blast
qed

theorem collections_default_or_checked_witness:
  "new_RemoteConfigTemplateImpl (JObj [(''etag'', JStr ''abc'')]) =
     Inr \<lparr>parameters = JObj [], parameterGroups = JObj [], conditions = JArr [],
          etagInternal = JStr ''abc'', version = None\<rparr> \<and>
   new_RemoteConfigTemplateImpl
     (JObj [(''etag'', JStr ''abc''), (''parameters'', JObj [(''p'', JNum (Finite 1))]),
            (''parameterGroups'', JObj [(''g'', JNull)]), (''conditions'', JArr [JBool True, JStr ''x''])]) =
     Inr \<lparr>parameters = JObj [(''p'', JNum (Finite 1))], parameterGroups = JObj [(''g'', JNull)],
          conditions = JArr [JBool True, JStr ''x''], etagInternal = JStr ''abc'', version = None\<rparr> \<and>
   (\<exists>e. new_RemoteConfigTemplateImpl (JObj [(''etag'', JStr ''abc''), (''parameters'', JNull)]) = Inl e \<and>
        is_invalid_argument e) \<and>
   (\<exists>e. new_RemoteConfigTemplateImpl (JObj [(''etag'', JStr ''abc''), (''parameterGroups'', JArr [])]) = Inl e \<and>
        is_invalid_argument e) \<and>
   (\<exists>e. new_RemoteConfigTemplateImpl (JObj [(''etag'', JStr ''abc''), (''conditions'', JObj [])]) = Inl e \<and>
        is_invalid_argument e)"
proof -
  have a: "\<exists>t. new_RemoteConfigTemplateImpl (JObj [(''etag'', JStr ''abc'')]) = Inr t"
    using collections_default_or_checked [of "JObj [(''etag'', JStr ''abc'')]"] by simp
  have b: "\<exists>t. new_RemoteConfigTemplateImpl
     (JObj [(''etag'', JStr ''abc''), (''parameters'', JObj [(''p'', JNum (Finite 1))]),
            (''parameterGroups'', JObj [(''g'', JNull)]), (''conditions'', JArr [JBool True, JStr ''x''])]) = Inr t"
    using collections_default_or_checked [of "JObj [(''etag'', JStr ''abc''),
            (''parameters'', JObj [(''p'', JNum (Finite 1))]),
            (''parameterGroups'', JObj [(''g'', JNull)]), (''conditions'', JArr [JBool True, JStr ''x''])]"]
    by simp
  show ?thesis
    using a b
          collections_default_or_checked [of "JObj [(''etag'', JStr ''abc''), (''parameters'', JNull)]"]
          collections_default_or_checked [of "JObj [(''etag'', JStr ''abc''), (''parameterGroups'', JArr [])]"]
          collections_default_or_checked [of "JObj [(''etag'', JStr ''abc''), (''conditions'', JObj [])]"]
    by (simp add: template_defs and_then_def validator_defs)
qed

text \<open>
  C7. \<open>createTemplateFromJSON\<close> fails with invalid-argument on every argument that is not
  a non-empty string; on a non-empty string that \<open>JSON.parse\<close> rejects it fails with
  invalid-argument and a message that ends with the parse error; \<open>{not json\<close> is such a
  string; on \<open>{"etag":"abc"}\<close> it returns a template whose \<open>parameters\<close> and
  \<open>parameterGroups\<close> are empty objects and whose \<open>conditions\<close> is the empty array.
\<close>

theorem createTemplateFromJSON_cases:
  "(\<forall>json. (\<forall>s. json = JStr s \<longrightarrow> s = []) \<longrightarrow>
      createTemplateFromJSON json =
        Inl (FirebaseRemoteConfigError ''invalid-argument''
               (Message ''JSON string must be a valid non-empty string''))) \<and>
   (\<forall>s d. s \<noteq> [] \<and> JSON_parse s = Inl d \<longrightarrow>
      createTemplateFromJSON (JStr s) =
        Inl (FirebaseRemoteConfigError ''invalid-argument''
               (Message (''Failed to parse the JSON string: '' @ s @ ''. '' @ d)))) \<and>
   JSON_parse ''{not json'' = Inl ''SyntaxError: Unexpected token n in JSON at position 1'' \<and>
   createTemplateFromJSON (JStr ''{\"etag\":\"abc\"}'') =
     Inr \<lparr>parameters = JObj [], parameterGroups = JObj [], conditions = JArr [],
          etagInternal = JStr ''abc'', version = None\<rparr>"
proof (intro conjI allI impI)
  fix json :: jsval
  assume "\<forall>s. json = JStr s \<longrightarrow> s = []"
  then show "createTemplateFromJSON json =
        Inl (FirebaseRemoteConfigError ''invalid-argument''
               (Message ''JSON string must be a valid non-empty string''))"
    by (rule createTemplateFromJSON_not_string)
next
  fix s d
  assume "s \<noteq> [] \<and> JSON_parse s = Inl d"
  then show "createTemplateFromJSON (JStr s) =
        Inl (FirebaseRemoteConfigError ''invalid-argument''
               (Message (''Failed to parse the JSON string: '' @ s @ ''. '' @ d)))"
    by (simp add: createTemplateFromJSON_string)
next
  show "JSON_parse ''{not json'' = Inl ''SyntaxError: Unexpected token n in JSON at position 1''"
    by code_simp
next
  have "JSON_parse ''{\"etag\":\"abc\"}'' = Inr (JObj [(''etag'', JStr ''abc'')])"
    by code_simp
  then show "createTemplateFromJSON (JStr ''{\"etag\":\"abc\"}'') =
     Inr \<lparr>parameters = JObj [], parameterGroups = JObj [], conditions = JArr [],
          etagInternal = JStr ''abc'', version = None\<rparr>"
    by (simp add: createTemplateFromJSON_string template_defs and_then_def validator_defs)
qed

theorem createTemplateFromJSON_cases_witness:
  "createTemplateFromJSON (JStr '''') =
     Inl (FirebaseRemoteConfigError ''invalid-argument''
            (Message ''JSON string must be a valid non-empty string'')) \<and>
   createTemplateFromJSON (JNum (Finite 5)) =
     Inl (FirebaseRemoteConfigError ''invalid-argument''
            (Message ''JSON string must be a valid non-empty string'')) \<and>
   createTemplateFromJSON (JStr ''{not json'') =
     Inl (FirebaseRemoteConfigError ''invalid-argument''
            (Message ''Failed to parse the JSON string: {not json. SyntaxError: Unexpected token n in JSON at position 1''))"
  using createTemplateFromJSON_cases [THEN conjunct1, THEN spec, of "JStr ''''"]
        createTemplateFromJSON_cases [THEN conjunct1, THEN spec, of "JNum (Finite 5)"]
        createTemplateFromJSON_cases [THEN conjunct2, THEN conjunct1, THEN spec, THEN spec,
          of "''{not json''" "''SyntaxError: Unexpected token n in JSON at position 1''"]
        createTemplateFromJSON_cases [THEN conjunct2, THEN conjunct2, THEN conjunct1]
  by simp

text \<open>
  C8. The result of \<open>listVersions\<close> carries the response's \<open>nextPageToken\<close>, and its
  \<open>versions\<close> are the constructed instances of the response's entries, one per entry and
  in the same order; it is the empty list when the response has no \<open>versions\<close> or an
  empty one. There is a result whenever every entry is accepted by the version
  constructor.
\<close>

theorem listVersions_wraps_each_version:
  "(listVersions (Inr response) = Inr r \<longrightarrow>
      nextPageToken r = get_prop response ''nextPageToken'' \<and>
      (\<forall>vs. get_prop response ''versions'' = JArr vs \<longrightarrow>
            map Inr (versions r) = map new_VersionImpl vs) \<and>
      (get_prop response ''versions'' = JUndefined \<longrightarrow> versions r = [])) \<and>
   (response \<noteq> JUndefined \<and> response \<noteq> JNull \<and>
      (get_prop response ''versions'' = JUndefined \<or> get_prop response ''versions'' = JArr []) \<longrightarrow>
      listVersions (Inr response) =
        Inr \<lparr>versions = [], nextPageToken = get_prop response ''nextPageToken''\<rparr>) \<and>
   (\<forall>vs. get_prop response ''versions'' = JArr vs \<and> (\<forall>v \<in> set vs. \<exists>x. new_VersionImpl v = Inr x) \<longrightarrow>
         (\<exists>r. listVersions (Inr response) = Inr r))"
proof (intro conjI impI allI)
  assume r: "listVersions (Inr response) = Inr r"
  from listVersions_Inr [OF r] show "nextPageToken r = get_prop response ''nextPageToken''"
    by simp
  from listVersions_Inr [OF r] show "get_prop response ''versions'' = JUndefined \<Longrightarrow> versions r = []"
    by simp
  fix vs
  assume "get_prop response ''versions'' = JArr vs"
  with listVersions_Inr [OF r] have "map_VersionImpl vs = Inr (versions r)"
    by simp
  then show "map Inr (versions r) = map new_VersionImpl vs"
    by (simp add: map_VersionImpl_Inr)
next
  assume a: "response \<noteq> JUndefined \<and> response \<noteq> JNull \<and>
      (get_prop response ''versions'' = JUndefined \<or> get_prop response ''versions'' = JArr [])"
  then have "listVersions_then response =
        Inr \<lparr>versions = [], nextPageToken = get_prop response ''nextPageToken''\<rparr>"
    by (auto simp: listVersions_then_def and_then_def)
  then show "listVersions (Inr response) =
        Inr \<lparr>versions = [], nextPageToken = get_prop response ''nextPageToken''\<rparr>"
    by (simp add: listVersions_def and_then_def)
next
  fix vs
  assume a: "get_prop response ''versions'' = JArr vs \<and> (\<forall>v \<in> set vs. \<exists>x. new_VersionImpl v = Inr x)"
  then obtain xs where "map_VersionImpl vs = Inr xs"
    using map_VersionImpl_succeeds [of vs] by blast
  moreover from a have "response \<noteq> JUndefined \<and> response \<noteq> JNull"
    by auto
  ultimately have "\<exists>r. listVersions_then response = Inr r"
    using a by (simp add: listVersions_then_def and_then_def)
  then show "\<exists>r. listVersions (Inr response) = Inr r"
    by (simp add: listVersions_def and_then_def)
qed

theorem listVersions_wraps_each_version_witness:
  "listVersions (Inr (JObj [(''nextPageToken'', JStr ''tok'')])) =
     Inr \<lparr>versions = [], nextPageToken = JStr ''tok''\<rparr> \<and>
   listVersions (Inr (JObj [(''versions'', JArr [])])) =
     Inr \<lparr>versions = [], nextPageToken = JUndefined\<rparr> \<and>
   (\<exists>r. listVersions (Inr (JObj [(''versions'', JArr [JObj [(''description'', JStr ''b'')],
                                                       JObj [(''description'', JStr ''a'')]]),
                                 (''nextPageToken'', JStr ''tok'')])) = Inr r \<and>
        nextPageToken r = JStr ''tok'' \<and>
        versions r = [unassigned_version\<lparr>description := JStr ''b''\<rparr>,
                      unassigned_version\<lparr>description := JStr ''a''\<rparr>])"
proof -
  have b: "new_VersionImpl (JObj [(''description'', JStr ''b'')]) =
           Inr (unassigned_version\<lparr>description := JStr ''b''\<rparr>)"
    by (simp add: version_defs validator_defs)
  have a: "new_VersionImpl (JObj [(''description'', JStr ''a'')]) =
           Inr (unassigned_version\<lparr>description := JStr ''a''\<rparr>)"
    by (simp add: version_defs validator_defs)
  have "\<exists>r. listVersions (Inr (JObj [(''versions'', JArr [JObj [(''description'', JStr ''b'')],
                                                          JObj [(''description'', JStr ''a'')]]),
                                    (''nextPageToken'', JStr ''tok'')])) = Inr r"
    using listVersions_wraps_each_version
            [THEN conjunct2, THEN conjunct2, THEN spec,
             of "JObj [(''versions'', JArr [JObj [(''description'', JStr ''b'')],
                                             JObj [(''description'', JStr ''a'')]]),
                       (''nextPageToken'', JStr ''tok'')]"
                "[JObj [(''description'', JStr ''b'')], JObj [(''description'', JStr ''a'')]]"]
    by (simp add: a b)
  then obtain r where r: "listVersions (Inr (JObj [(''versions'', JArr [JObj [(''description'', JStr ''b'')],
                                                          JObj [(''description'', JStr ''a'')]]),
                                    (''nextPageToken'', JStr ''tok'')])) = Inr r"
    by blast
  have "nextPageToken r = JStr ''tok'' \<and>
        map Inr (versions r) = [new_VersionImpl (JObj [(''description'', JStr ''b'')]),
                                new_VersionImpl (JObj [(''description'', JStr ''a'')])]"
    using listVersions_wraps_each_version [THEN conjunct1, rule_format, OF r]
    by simp
  then have "nextPageToken r = JStr ''tok'' \<and>
             versions r = [unassigned_version\<lparr>description := JStr ''b''\<rparr>,
                           unassigned_version\<lparr>description := JStr ''a''\<rparr>]"
    unfolding a b by (cases "versions r") auto
  with r show ?thesis
    using listVersions_wraps_each_version
            [THEN conjunct2, THEN conjunct1, of "JObj [(''nextPageToken'', JStr ''tok'')]"]
          listVersions_wraps_each_version
            [THEN conjunct2, THEN conjunct1, of "JObj [(''versions'', JArr [])]"]
    by simp
qed

text \<open>
  C9. For a constructed template the accessor \<open>etag\<close> returns the \<open>etag\<close> given to the
  constructor, and it still does after any sequence of operations on the template;
  \<open>toJSON\<close> returns the five fields \<open>conditions\<close>, \<open>parameters\<close>, \<open>parameterGroups\<close>,
  \<open>etag\<close> and \<open>version\<close>, with that same \<open>etag\<close>.
\<close>

theorem etag_fixed_at_construction:
  assumes "new_RemoteConfigTemplateImpl config = Inr t"
  shows "etag t = get_prop config ''etag'' \<and>
         (\<forall>ops. etag (foldl apply_op t ops) = get_prop config ''etag'' \<and>
                toJSON (foldl apply_op t ops) =
                  JObj [(''conditions'', conditions (foldl apply_op t ops)),
                        (''parameters'', parameters (foldl apply_op t ops)),
                        (''parameterGroups'', parameterGroups (foldl apply_op t ops)),
                        (''etag'', get_prop config ''etag''),
                        (''version'', (case version (foldl apply_op t ops) of
                                         None \<Rightarrow> JUndefined
                                       | Some v \<Rightarrow> VersionImpl_value v))])"
proof -
  from assms have "etagInternal t = get_prop config ''etag''"
    by (auto simp: new_RemoteConfigTemplateImpl_Inr)
  then show ?thesis
    by (simp add: etag_def toJSON_def etagInternal_apply_ops)
qed

theorem etag_fixed_at_construction_witness:
  "new_RemoteConfigTemplateImpl (JObj [(''etag'', JStr ''abc'')]) =
     Inr \<lparr>parameters = JObj [], parameterGroups = JObj [], conditions = JArr [],
          etagInternal = JStr ''abc'', version = None\<rparr> \<and>
   etag (foldl apply_op
          \<lparr>parameters = JObj [], parameterGroups = JObj [], conditions = JArr [],
           etagInternal = JStr ''abc'', version = None\<rparr>
          [AssignEtag (JStr ''forged''), AssignParameters (JObj [(''etag'', JStr ''forged'')]), CallToJSON]) =
     JStr ''abc'' \<and>
   toJSON (foldl apply_op
          \<lparr>parameters = JObj [], parameterGroups = JObj [], conditions = JArr [],
           etagInternal = JStr ''abc'', version = None\<rparr>
          [AssignEtag (JStr ''forged''), AssignParameters (JObj [(''etag'', JStr ''forged'')]), CallToJSON]) =
     JObj [(''conditions'', JArr []), (''parameters'', JObj [(''etag'', JStr ''forged'')]),
           (''parameterGroups'', JObj []), (''etag'', JStr ''abc''), (''version'', JUndefined)]"
proof -
  have c: "new_RemoteConfigTemplateImpl (JObj [(''etag'', JStr ''abc'')]) =
     Inr \<lparr>parameters = JObj [], parameterGroups = JObj [], conditions = JArr [],
          etagInternal = JStr ''abc'', version = None\<rparr>"
    by (simp add: template_defs and_then_def validator_defs)
  show ?thesis
    using c etag_fixed_at_construction [OF c, THEN conjunct2, THEN spec,
            of "[AssignEtag (JStr ''forged''), AssignParameters (JObj [(''etag'', JStr ''forged'')]),
                 CallToJSON]"]
    by simp
qed

text \<open>
  C10. When a non-empty text parses as JSON and the parsed value is not a non-null,
  non-array object (\<open>null\<close>, \<open>42\<close>, \<open>"abc"\<close>, \<open>true\<close>, \<open>[]\<close>),
  \<open>createTemplateFromJSON\<close> fails with the invalid-argument error of the template
  constructor.
\<close>

theorem parsed_non_object_rejected:
  assumes "s \<noteq> []" and "JSON_parse s = Inr v" and "\<forall>kvs. v \<noteq> JObj kvs"
  shows "createTemplateFromJSON (JStr s) =
           Inl (FirebaseRemoteConfigError ''invalid-argument''
                  (MessageWithJSON ''Invalid Remote Config template: '' v))"
proof -
  from assms(3) have "\<not> isNonNullObject v"
    by (simp add: is_object [symmetric])
  with assms(1,2) show ?thesis
    by (simp add: createTemplateFromJSON_string new_RemoteConfigTemplateImpl_def)
qed

theorem parsed_non_object_rejected_witness:
  "createTemplateFromJSON (JStr ''null'') =
     Inl (FirebaseRemoteConfigError ''invalid-argument''
            (MessageWithJSON ''Invalid Remote Config template: '' JNull)) \<and>
   createTemplateFromJSON (JStr ''42'') =
     Inl (FirebaseRemoteConfigError ''invalid-argument''
            (MessageWithJSON ''Invalid Remote Config template: '' (JNum (Finite 42)))) \<and>
   createTemplateFromJSON (JStr ''\"abc\"'') =
     Inl (FirebaseRemoteConfigError ''invalid-argument''
            (MessageWithJSON ''Invalid Remote Config template: '' (JStr ''abc''))) \<and>
   createTemplateFromJSON (JStr ''true'') =
     Inl (FirebaseRemoteConfigError ''invalid-argument''
            (MessageWithJSON ''Invalid Remote Config template: '' (JBool True))) \<and>
   createTemplateFromJSON (JStr ''[]'') =
     Inl (FirebaseRemoteConfigError ''invalid-argument''
            (MessageWithJSON ''Invalid Remote Config template: '' (JArr [])))"
proof -
  have p: "JSON_parse ''null'' = Inr JNull" "JSON_parse ''42'' = Inr (JNum (Finite 42))"
    "JSON_parse ''\"abc\"'' = Inr (JStr ''abc'')" "JSON_parse ''true'' = Inr (JBool True)"
    "JSON_parse ''[]'' = Inr (JArr [])"
    by code_simp+
  show ?thesis
    using parsed_non_object_rejected [OF _ p(1)] parsed_non_object_rejected [OF _ p(2)]
          parsed_non_object_rejected [OF _ p(3)] parsed_non_object_rejected [OF _ p(4)]
          parsed_non_object_rejected [OF _ p(5)]
    by simp
qed

end
